theory Spec2Isabelle
  imports Main
begin

section \<open>Strings\<close>

text \<open>
  A JavaScript string is modelled as a HOL \<open>string\<close>, one \<open>char\<close> for one code unit.
  \<open>startsWith\<close>, \<open>slice\<close> and \<open>str_includes\<close> (\<open>includes\<close>) are the
  \<open>String.prototype\<close> methods the server calls.
\<close>

fun startsWith :: "string \<Rightarrow> string \<Rightarrow> bool" where
  "startsWith s [] = True"
| "startsWith [] (p # ps) = False"
| "startsWith (c # cs) (p # ps) = (c = p \<and> startsWith cs ps)"

definition slice :: "string \<Rightarrow> nat \<Rightarrow> string" where
  "slice s n = drop n s"

fun str_includes :: "string \<Rightarrow> string \<Rightarrow> bool" where
  "str_includes [] sub = (sub = [])"
| "str_includes (c # cs) sub = (startsWith (c # cs) sub \<or> str_includes cs sub)"

text \<open>
  \<open>trim\<close> removes the white space of both ends (the white-space code units below
  256: tab, line feed, vertical tab, form feed, carriage return, space, no-break space);
  \<open>toLowerCase\<close> maps the letters \<open>A\<close> to \<open>Z\<close>; \<open>number_toString\<close> is the decimal
  text of a non-negative integer, as a template literal renders it.
\<close>

definition is_space :: "char \<Rightarrow> bool" where
  "is_space c = (of_char c \<in> {9, 10, 11, 12, 13, 32, 160 :: nat})"

definition trim :: "string \<Rightarrow> string" where
  "trim s = rev (dropWhile is_space (rev (dropWhile is_space s)))"

definition lower_char :: "char \<Rightarrow> char" where
  "lower_char c =
     (case map_of (zip ''ABCDEFGHIJKLMNOPQRSTUVWXYZ'' ''abcdefghijklmnopqrstuvwxyz'') c of
        Some l \<Rightarrow> l
      | None \<Rightarrow> c)"

definition toLowerCase :: "string \<Rightarrow> string" where
  "toLowerCase s = map lower_char s"

definition digit_char :: "nat \<Rightarrow> char" where
  "digit_char d = ''0123456789'' ! d"

fun number_toString :: "nat \<Rightarrow> string" where
  "number_toString n =
     (if n < 10 then [digit_char n]
      else number_toString (n div 10) @ [digit_char (n mod 10)])"

declare number_toString.simps [simp del]

text \<open>Reading a decimal text back, to show that distinct numbers have distinct texts.\<close>

definition digit_val :: "char \<Rightarrow> nat" where
  "digit_val c = (of_char c :: nat) - 48"

definition parse_nat :: "string \<Rightarrow> nat" where
  "parse_nat s = foldl (\<lambda>a c. 10 * a + digit_val c) 0 s"

text \<open>
  A property of a JSON body is absent (\<open>undefined\<close>), \<open>null\<close> or a value of the type
  the handler expects. \<open>truthy\<close> is the test \<open>if (x)\<close> on a string, \<open>nullish x d\<close> is
  \<open>x ?? d\<close>, \<open>or_null x\<close> is \<open>x ?? null\<close>, and \<open>to_Boolean\<close> is \<open>Boolean(x)\<close>.
\<close>

datatype 'a field = Undefined | Null | Val 'a

definition truthy :: "string field \<Rightarrow> bool" where
  "truthy x = (case x of Val v \<Rightarrow> v \<noteq> [] | _ \<Rightarrow> False)"

definition nullish :: "'a field \<Rightarrow> 'a \<Rightarrow> 'a" where
  "nullish x d = (case x of Val v \<Rightarrow> v | _ \<Rightarrow> d)"

definition or_null :: "'a field \<Rightarrow> 'a option" where
  "or_null x = (case x of Val v \<Rightarrow> Some v | _ \<Rightarrow> None)"

definition to_Boolean :: "bool field \<Rightarrow> bool" where
  "to_Boolean x = (case x of Val v \<Rightarrow> v | _ \<Rightarrow> False)"

section \<open>The packages: jsonwebtoken, bcryptjs and the storage layer's text matching\<close>

text \<open>
  \<open>jwt.verify(token, JWT_SECRET)\<close> either returns the decoded payload or throws an
  error object; the server reads only the \<open>name\<close> of the error. The server signs
  payloads \<open>{userId: user.id, username: user.username}\<close> only, where \<open>user.id\<close> is a
  \<open>SERIAL\<close> column, so a payload is a number and a string; \<open>0\<close> is the one falsy
  \<open>userId\<close>.
\<close>

record thrown =
  name :: string
  message :: string

record payload =
  userId :: nat
  p_username :: string

text \<open>
  The packages are parameters of the model. Verification and signing read the
  clock, hashing draws a salt: both are arguments here.
  \<^item> \<open>jwt_verify L now token\<close> is \<open>jwt.verify(token, JWT_SECRET)\<close> called at time \<open>now\<close>;
  \<^item> \<open>jwt_sign L now p\<close> is \<open>jwt.sign(p, JWT_SECRET, { expiresIn: "7d" })\<close>;
  \<^item> \<open>bcrypt_hash L salt pw\<close> is \<open>bcrypt.hash(pw, 10)\<close> with the salt drawn;
  \<^item> \<open>bcrypt_compare L pw h\<close> is \<open>bcrypt.compare(pw, h)\<close>;
  \<^item> \<open>pg_ilike L text pattern\<close> is PostgreSQL's \<open>text ILIKE pattern\<close>.
\<close>

record libs =
  jwt_verify :: "nat \<Rightarrow> string \<Rightarrow> thrown + payload"
  jwt_sign :: "nat \<Rightarrow> payload \<Rightarrow> string"
  bcrypt_hash :: "string \<Rightarrow> string \<Rightarrow> string"
  bcrypt_compare :: "string \<Rightarrow> string \<Rightarrow> bool"
  pg_ilike :: "string \<Rightarrow> string \<Rightarrow> bool"

section \<open>The store\<close>

text \<open>
  The tables \<open>users\<close> and \<open>tasks\<close> of \<open>initDb\<close>, with the columns the handlers below
  read or write, and the two \<open>SERIAL\<close> sequences. A nullable column is an \<open>option\<close>.
  \<open>username\<close> is \<open>UNIQUE NOT NULL\<close>, \<open>phone\<close> is \<open>UNIQUE\<close>.
\<close>

record user_row =
  u_id :: nat
  u_username :: string
  password_hash :: string
  is_verified :: bool
  phone :: "string option"

record task =
  t_id :: nat
  title :: string
  t_status :: string
  description :: "string option"
  priority :: "string option"
  due_date :: "string option"
  due_time :: "string option"
  category :: "string option"
  t_type :: "string option"
  project_id :: "int option"
  important :: "bool option"
  assigned_to :: "string option"
  user_id :: "nat option"
  created_at :: nat
  updated_at :: nat

record store =
  users :: "user_row list"
  users_seq :: nat
  tasks :: "task list"
  tasks_seq :: nat

definition empty_store :: store where
  "empty_store = \<lparr>users = [], users_seq = 0, tasks = [], tasks_seq = 0\<rparr>"

text \<open>
  What a request finds around it: the clock (seconds), the salt \<open>bcrypt.hash\<close> draws,
  and the storage layer's failures. \<open>query_error e k = Some msg\<close> says that the
  \<open>k\<close>-th \<open>pool.query\<close> call of the handler throws an error with that message whatever
  the statement is (a lost connection, a parameter PostgreSQL rejects); the
  violations of the constraints modelled here are raised by the statements
  themselves. Every handler catches the error and answers 500.
\<close>

record env =
  clock :: nat
  salt :: string
  query_error :: "nat \<Rightarrow> string option"

definition pool_query :: "env \<Rightarrow> nat \<Rightarrow> string + 'a \<Rightarrow> string + 'a" where
  "pool_query e k r = (case query_error e k of Some msg \<Rightarrow> Inl msg | None \<Rightarrow> r)"

definition unique_violation :: "string \<Rightarrow> string" where
  "unique_violation constraint =
     ''duplicate key value violates unique constraint '' @ [CHR 0x22] @ constraint @ [CHR 0x22]"

section \<open>Realtime events\<close>

text \<open>
  The events the server sends: the two acknowledgements of \<open>authenticate\<close>
  (\<open>authenticated {ok: true}\<close>, \<open>auth_error {error}\<close>) and the three task events.
\<close>

datatype event =
    Authenticated
  | AuthError string
  | TaskCreated task
  | TaskUpdated task
  | TaskDeleted nat

text \<open>The room of a user: \<^verbatim>\<open>`user-${id}`\<close>.\<close>

definition user_room :: "nat \<Rightarrow> string" where
  "user_room n = ''user-'' @ number_toString n"

section \<open>HTTP responses\<close>

text \<open>\<open>req.user\<close>: the object \<open>{ id, username }\<close>.\<close>

record identity =
  uid :: nat
  username :: string

text \<open>
  The JSON bodies of the responses: \<open>{error, message?}\<close>; \<open>{success, message, token, user}\<close>
  of the registration; \<open>{token, user}\<close> of the login; \<open>{valid: true, user}\<close>;
  \<open>{success: true, message?}\<close>; \<open>{success, message, user}\<close> of the demo user; a task; a
  list of tasks.
\<close>

datatype body =
    ErrorBody string "string option"
  | Registered string identity
  | LoggedIn string identity
  | Valid identity
  | Success "string option"
  | DemoUser identity
  | TaskRow task
  | TaskRows "task list"

record http_response =
  status :: nat
  json :: body

text \<open>
  What a handler does: the store it leaves, the response it sends, and the
  \<open>io.to(room).emit(...)\<close> calls it makes, in order.
\<close>

type_synonym outcome = "store \<times> http_response \<times> (string \<times> event) list"

definition respond :: "nat \<Rightarrow> body \<Rightarrow> http_response" where
  "respond st b = \<lparr>status = st, json = b\<rparr>"

definition failure :: "nat \<Rightarrow> string \<Rightarrow> http_response" where
  "failure st msg = respond st (ErrorBody msg None)"

section \<open>Auth helpers\<close>

text \<open>
  \<open>bearer\<close> is the first two lines of both middlewares:
  \<^verbatim>\<open>const auth = req.headers["authorization"] || "";\<close>
  \<^verbatim>\<open>const token = auth.startsWith("Bearer ") ? auth.slice(7) : null;\<close>
  The header is \<open>None\<close> when the request has none. \<open>falsy\<close> is \<open>!token\<close>: true of
  \<open>null\<close> and of the empty string.
\<close>

definition bearer :: "string option \<Rightarrow> string option" where
  "bearer h =
     (let auth = (case h of None \<Rightarrow> [] | Some a \<Rightarrow> a)
      in if startsWith auth ''Bearer '' then Some (slice auth 7) else None)"

definition falsy :: "string option \<Rightarrow> bool" where
  "falsy t = (case t of None \<Rightarrow> True | Some s \<Rightarrow> s = [])"

definition authOptional :: "libs \<Rightarrow> nat \<Rightarrow> string option \<Rightarrow> identity option" where
  "authOptional L now h =
     (case bearer h of
        None \<Rightarrow> None
      | Some token \<Rightarrow>
          if token = [] then None
          else (case jwt_verify L now token of
                  Inr p \<Rightarrow> Some \<lparr>uid = userId p, username = p_username p\<rparr>
                | Inl e \<Rightarrow> None))"

definition unauthorized :: http_response where
  "unauthorized = respond 401 (ErrorBody ''Unauthorized'' (Some ''No token provided''))"

definition invalid_payload :: http_response where
  "invalid_payload = respond 401 (ErrorBody ''Invalid token'' (Some ''Token payload is invalid''))"

definition token_expired :: http_response where
  "token_expired = respond 401 (ErrorBody ''Token expired'' (Some ''Please login again''))"

definition token_malformed :: http_response where
  "token_malformed = respond 401 (ErrorBody ''Invalid token'' (Some ''Token is malformed''))"

definition token_unverified :: http_response where
  "token_unverified = respond 401 (ErrorBody ''Invalid token'' (Some ''Token verification failed''))"

text \<open>The \<open>catch\<close> block of \<open>authRequired\<close>.\<close>

definition auth_failure :: "thrown \<Rightarrow> http_response" where
  "auth_failure e =
     (if name e = ''TokenExpiredError'' then token_expired
      else if name e = ''JsonWebTokenError'' then token_malformed
      else token_unverified)"

text \<open>
  \<open>authRequired\<close> either answers the request itself (\<open>Inl\<close>) or sets \<open>req.user\<close> and
  calls \<open>next()\<close> (\<open>Inr\<close>).
\<close>

definition authRequired :: "libs \<Rightarrow> nat \<Rightarrow> string option \<Rightarrow> http_response + identity" where
  "authRequired L now h =
     (case bearer h of
        None \<Rightarrow> Inl unauthorized
      | Some token \<Rightarrow>
          if token = [] then Inl unauthorized
          else (case jwt_verify L now token of
                  Inr p \<Rightarrow>
                    if userId p = 0 then Inl invalid_payload
                    else Inr \<lparr>uid = userId p, username = p_username p\<rparr>
                | Inl e \<Rightarrow> Inl (auth_failure e)))"

section \<open>Account handlers\<close>

subsection \<open>The statements on \<open>users\<close>\<close>

text \<open>
  \<^verbatim>\<open>INSERT INTO users (username, password_hash, is_verified) VALUES ($1, $2, TRUE)
  RETURNING id, username\<close>:
  the insert fails on the unique constraint of \<open>username\<close>; otherwise the row takes the
  next value of the sequence.
\<close>

definition insert_user :: "store \<Rightarrow> string \<Rightarrow> string \<Rightarrow> string + store \<times> user_row" where
  "insert_user s un hash =
     (if \<exists>u \<in> set (users s). u_username u = un
      then Inl (unique_violation ''users_username_key'')
      else let row = \<lparr>u_id = Suc (users_seq s), u_username = un, password_hash = hash,
                        is_verified = True, phone = None\<rparr>
           in Inr (s\<lparr>users := users s @ [row], users_seq := Suc (users_seq s)\<rparr>, row))"

text \<open>\<^verbatim>\<open>SELECT ... FROM users WHERE username=$1\<close> and \<^verbatim>\<open>... WHERE id=$1\<close>.\<close>

definition users_by_username :: "store \<Rightarrow> string \<Rightarrow> user_row list" where
  "users_by_username s un = filter (\<lambda>u. u_username u = un) (users s)"

definition users_by_id :: "store \<Rightarrow> nat \<Rightarrow> user_row list" where
  "users_by_id s i = filter (\<lambda>u. u_id u = i) (users s)"

text \<open>
  \<^verbatim>\<open>UPDATE users SET password_hash = $1 WHERE username = $2\<close> and
  \<^verbatim>\<open>UPDATE users SET password_hash=$1 WHERE id=$2\<close>.
\<close>

definition set_password_by_username :: "store \<Rightarrow> string \<Rightarrow> string \<Rightarrow> store" where
  "set_password_by_username s hash un =
     s\<lparr>users := map (\<lambda>u. if u_username u = un then u\<lparr>password_hash := hash\<rparr> else u) (users s)\<rparr>"

definition set_password_by_id :: "store \<Rightarrow> string \<Rightarrow> nat \<Rightarrow> store" where
  "set_password_by_id s hash i =
     s\<lparr>users := map (\<lambda>u. if u_id u = i then u\<lparr>password_hash := hash\<rparr> else u) (users s)\<rparr>"

text \<open>
  \<^verbatim>\<open>INSERT INTO users (username, password_hash, phone) VALUES ($1, $2, $3)
  ON CONFLICT (username) DO UPDATE SET password_hash = EXCLUDED.password_hash,
  phone = EXCLUDED.phone RETURNING id, username\<close>:
  the phone of another user's row violates the unique constraint of \<open>phone\<close>.
\<close>

definition upsert_user :: "store \<Rightarrow> string \<Rightarrow> string \<Rightarrow> string \<Rightarrow> string + store \<times> user_row" where
  "upsert_user s un hash ph =
     (if \<exists>u \<in> set (users s). u_username u \<noteq> un \<and> phone u = Some ph
      then Inl (unique_violation ''users_phone_key'')
      else (case users_by_username s un of
              [] \<Rightarrow>
                let row = \<lparr>u_id = Suc (users_seq s), u_username = un, password_hash = hash,
                           is_verified = False, phone = Some ph\<rparr>
                in Inr (s\<lparr>users := users s @ [row], users_seq := Suc (users_seq s)\<rparr>, row)
            | old # _ \<Rightarrow>
                Inr (s\<lparr>users := map (\<lambda>u. if u_username u = un
                                         then u\<lparr>password_hash := hash, phone := Some ph\<rparr>
                                         else u) (users s)\<rparr>,
                     old\<lparr>password_hash := hash, phone := Some ph\<rparr>)))"

subsection \<open>\<open>POST /auth/register\<close>\<close>

definition post_register :: "libs \<Rightarrow> env \<Rightarrow> string field \<Rightarrow> string field \<Rightarrow> store \<Rightarrow> outcome" where
  "post_register L e username' password s =
     (if \<not> truthy username' \<or> \<not> truthy password
      then (s, failure 400 ''Username and password are required'', [])
      else if length (nullish username' []) < 3
      then (s, failure 400 ''Username must be at least 3 characters'', [])
      else if length (nullish password []) < 6
      then (s, failure 400 ''Password must be at least 6 characters'', [])
      else
        let hash = bcrypt_hash L (salt e) (nullish password [])
        in (case pool_query e 0 (insert_user s (nullish username' []) hash) of
              Inr (s', user) \<Rightarrow>
                let token = jwt_sign L (clock e) \<lparr>userId = u_id user, p_username = u_username user\<rparr>
                in (s', respond 200 (Registered token \<lparr>uid = u_id user, username = u_username user\<rparr>), [])
            | Inl msg \<Rightarrow>
                if str_includes msg ''duplicate key'' \<and> str_includes msg ''users_username_key''
                then (s, failure 409 ''Username already exists'', [])
                else (s, failure 500 ''Failed to register'', [])))"

subsection \<open>\<open>POST /auth/login\<close>\<close>

definition post_login :: "libs \<Rightarrow> env \<Rightarrow> string field \<Rightarrow> string field \<Rightarrow> store \<Rightarrow> outcome" where
  "post_login L e username' password s =
     (if \<not> truthy username' \<or> \<not> truthy password
      then (s, failure 400 ''username and password are required'', [])
      else (case pool_query e 0 (Inr (users_by_username s (nullish username' []))) of
              Inl msg \<Rightarrow> (s, failure 500 ''Failed to login'', [])
            | Inr [] \<Rightarrow> (s, failure 401 ''invalid credentials'', [])
            | Inr (user # _) \<Rightarrow>
                if \<not> bcrypt_compare L (nullish password []) (password_hash user)
                then (s, failure 401 ''invalid credentials'', [])
                else
                  let token = jwt_sign L (clock e) \<lparr>userId = u_id user, p_username = u_username user\<rparr>
                  in (s, respond 200 (LoggedIn token \<lparr>uid = u_id user, username = u_username user\<rparr>), [])))"

subsection \<open>\<open>GET /auth/verify\<close> and \<open>POST /auth/change-password\<close>, behind \<open>authRequired\<close>\<close>

definition get_verify :: "identity \<Rightarrow> store \<Rightarrow> outcome" where
  "get_verify user s = (s, respond 200 (Valid user), [])"

definition post_change_password ::
  "libs \<Rightarrow> env \<Rightarrow> identity \<Rightarrow> string field \<Rightarrow> string field \<Rightarrow> store \<Rightarrow> outcome" where
  "post_change_password L e user currentPassword newPassword s =
     (if \<not> truthy currentPassword \<or> \<not> truthy newPassword
      then (s, failure 400 ''Current password and new password are required'', [])
      else (case pool_query e 0 (Inr (users_by_id s (uid user))) of
              Inl msg \<Rightarrow> (s, failure 500 ''Failed to change password'', [])
            | Inr [] \<Rightarrow> (s, failure 404 ''User not found'', [])
            | Inr (row # _) \<Rightarrow>
                if \<not> bcrypt_compare L (nullish currentPassword []) (password_hash row)
                then (s, failure 401 ''Current password is incorrect'', [])
                else
                  let hashedNewPassword = bcrypt_hash L (salt e) (nullish newPassword [])
                  in (case pool_query e 1 (Inr (set_password_by_id s hashedNewPassword (uid user))) of
                        Inl msg \<Rightarrow> (s, failure 500 ''Failed to change password'', [])
                      | Inr s' \<Rightarrow> (s', respond 200 (Success (Some ''Password changed successfully'')), []))))"

subsection \<open>\<open>POST /auth/reset-password\<close>\<close>

definition post_reset_password :: "libs \<Rightarrow> env \<Rightarrow> string field \<Rightarrow> string field \<Rightarrow> store \<Rightarrow> outcome" where
  "post_reset_password L e username' newPassword s =
     (if \<not> truthy username' \<or> \<not> truthy newPassword
      then (s, failure 400 ''Username and new password are required'', [])
      else if length (nullish newPassword []) < 6
      then (s, failure 400 ''Password must be at least 6 characters'', [])
      else (case pool_query e 0 (Inr (users_by_username s (nullish username' []))) of
              Inl msg \<Rightarrow> (s, failure 500 ''Failed to update password'', [])
            | Inr [] \<Rightarrow> (s, failure 404 ''User not found'', [])
            | Inr (_ # _) \<Rightarrow>
                let hash = bcrypt_hash L (salt e) (nullish newPassword [])
                in (case pool_query e 1 (Inr (set_password_by_username s hash (nullish username' []))) of
                      Inl msg \<Rightarrow> (s, failure 500 ''Failed to update password'', [])
                    | Inr s' \<Rightarrow> (s', respond 200 (Success (Some ''Password updated successfully'')), []))))"

subsection \<open>\<open>POST /admin/create-demo-user\<close>\<close>

definition post_create_demo_user :: "libs \<Rightarrow> env \<Rightarrow> store \<Rightarrow> outcome" where
  "post_create_demo_user L e s =
     (let passwordHash = bcrypt_hash L (salt e) ''Mukesh9944''
      in (case pool_query e 0 (upsert_user s ''murugan@symatic.com'' passwordHash ''9944567890'') of
            Inl msg \<Rightarrow> (s, failure 500 ''Failed to create demo user'', [])
          | Inr (s', row) \<Rightarrow>
              (s', respond 200 (DemoUser \<lparr>uid = u_id row, username = u_username row\<rparr>), [])))"

section \<open>Task handlers\<close>

subsection \<open>\<open>GET /tasks\<close>, behind \<open>authOptional\<close>\<close>

text \<open>
  The query string. Each parameter is absent or a string; \<open>project_id\<close> is the number
  PostgreSQL reads from a non-empty parameter.
\<close>

record tasks_query =
  q_status :: "string option"
  q_priority :: "string option"
  q_category :: "string option"
  q_type :: "string option"
  q_project_id :: "int option"
  q_important :: "string option"
  q_q :: "string option"
  q_sort :: "string option"
  q_order :: "string option"

text \<open>The conditions the handler pushes onto \<open>where\<close>, with their parameters.\<close>

datatype cond =
    UserIdEq nat
  | StatusEq string
  | PriorityEq string
  | CategoryEq string
  | TypeEq string
  | ProjectIdEq int
  | ImportantIs bool
  | Search string

definition coalesce :: "string option \<Rightarrow> string" where
  "coalesce x = (case x of None \<Rightarrow> [] | Some v \<Rightarrow> v)"

fun holds :: "libs \<Rightarrow> cond \<Rightarrow> task \<Rightarrow> bool" where
  "holds L (UserIdEq n) t = (user_id t = Some n)"
| "holds L (StatusEq v) t = (t_status t = v)"
| "holds L (PriorityEq v) t = (priority t = Some v)"
| "holds L (CategoryEq v) t = (category t = Some v)"
| "holds L (TypeEq v) t = (t_type t = Some v)"
| "holds L (ProjectIdEq i) t = (project_id t = Some i)"
| "holds L (ImportantIs b) t = (important t = Some b)"
| "holds L (Search pat) t = (pg_ilike L (title t) pat \<or> pg_ilike L (coalesce (description t)) pat)"

text \<open>\<open>if (x) { where.push(...) }\<close> for a string parameter.\<close>

definition clause :: "string option \<Rightarrow> (string \<Rightarrow> cond) \<Rightarrow> cond list" where
  "clause x c = (case x of None \<Rightarrow> [] | Some v \<Rightarrow> if v = [] then [] else [c v])"

definition important_clause :: "string option \<Rightarrow> cond list" where
  "important_clause x =
     (case x of
        None \<Rightarrow> []
      | Some important' \<Rightarrow>
          let val = toLowerCase important'
          in if val = ''true'' \<or> val = ''1'' then [ImportantIs True]
             else if val = ''false'' \<or> val = ''0'' then [ImportantIs False]
             else [])"

definition tasks_where :: "identity option \<Rightarrow> tasks_query \<Rightarrow> cond list" where
  "tasks_where user q =
     (case user of None \<Rightarrow> [] | Some u \<Rightarrow> [UserIdEq (uid u)])
     @ clause (q_status q) StatusEq
     @ clause (q_priority q) PriorityEq
     @ clause (q_category q) CategoryEq
     @ clause (q_type q) TypeEq
     @ (case q_project_id q of None \<Rightarrow> [] | Some i \<Rightarrow> [ProjectIdEq i])
     @ important_clause (q_important q)
     @ clause (q_q q) (\<lambda>v. Search (''%'' @ v @ ''%''))"

text \<open>
  \<open>ORDER BY\<close>: the value of the sort column in a row, and the order of two values.
  Numbers are compared as numbers, texts code unit by code unit, and a \<open>NULL\<close> is
  larger than every value (last in \<open>ASC\<close>, first in \<open>DESC\<close>). Rows with equal keys
  stay in table order.
\<close>

datatype sqlval = SqlNull | SqlInt int | SqlText string

fun text_less :: "string \<Rightarrow> string \<Rightarrow> bool" where
  "text_less [] [] = False"
| "text_less [] (y # ys) = True"
| "text_less (x # xs) [] = False"
| "text_less (x # xs) (y # ys) =
     ((of_char x :: nat) < of_char y \<or> (x = y \<and> text_less xs ys))"

fun sql_le :: "sqlval \<Rightarrow> sqlval \<Rightarrow> bool" where
  "sql_le v SqlNull = True"
| "sql_le SqlNull v = False"
| "sql_le (SqlInt a) (SqlInt b) = (a \<le> b)"
| "sql_le (SqlText a) (SqlText b) = (\<not> text_less b a)"
| "sql_le v w = True"

definition opt_text :: "string option \<Rightarrow> sqlval" where
  "opt_text x = (case x of None \<Rightarrow> SqlNull | Some v \<Rightarrow> SqlText v)"

definition allowedSort :: "string list" where
  "allowedSort = [''id'', ''title'', ''status'', ''priority'', ''category'', ''type'',
                  ''due_date'', ''due_time'', ''project_id'', ''created_at'', ''updated_at'']"

definition column :: "string \<Rightarrow> task \<Rightarrow> sqlval" where
  "column c t =
     (if c = ''title'' then SqlText (title t)
      else if c = ''status'' then SqlText (t_status t)
      else if c = ''priority'' then opt_text (priority t)
      else if c = ''category'' then opt_text (category t)
      else if c = ''type'' then opt_text (t_type t)
      else if c = ''due_date'' then opt_text (due_date t)
      else if c = ''due_time'' then opt_text (due_time t)
      else if c = ''project_id'' then (case project_id t of None \<Rightarrow> SqlNull | Some i \<Rightarrow> SqlInt i)
      else if c = ''created_at'' then SqlInt (int (created_at t))
      else if c = ''updated_at'' then SqlInt (int (updated_at t))
      else SqlInt (int (t_id t)))"

fun insert_row :: "(task \<Rightarrow> task \<Rightarrow> bool) \<Rightarrow> task \<Rightarrow> task list \<Rightarrow> task list" where
  "insert_row le x [] = [x]"
| "insert_row le x (y # ys) = (if le x y then x # y # ys else y # insert_row le x ys)"

definition order_by :: "string \<Rightarrow> string \<Rightarrow> task list \<Rightarrow> task list" where
  "order_by sortBy sortOrder rows =
     foldr (insert_row (\<lambda>a b. if sortOrder = ''DESC''
                               then sql_le (column sortBy b) (column sortBy a)
                               else sql_le (column sortBy a) (column sortBy b))) rows []"

text \<open>\<^verbatim>\<open>SELECT * FROM tasks WHERE ... ORDER BY ...\<close>\<close>

definition select_tasks :: "libs \<Rightarrow> store \<Rightarrow> cond list \<Rightarrow> string \<Rightarrow> string \<Rightarrow> task list" where
  "select_tasks L s where' sortBy sortOrder =
     order_by sortBy sortOrder (filter (\<lambda>t. \<forall>c \<in> set where'. holds L c t) (tasks s))"

definition get_tasks :: "libs \<Rightarrow> env \<Rightarrow> identity option \<Rightarrow> tasks_query \<Rightarrow> store \<Rightarrow> outcome" where
  "get_tasks L e user q s =
     (let where' = tasks_where user q;
          sort = (case q_sort q of None \<Rightarrow> ''id'' | Some v \<Rightarrow> v);
          order = (case q_order q of None \<Rightarrow> ''asc'' | Some v \<Rightarrow> v);
          sortBy = (if sort \<in> set allowedSort then sort else ''id'');
          sortOrder = (if toLowerCase order = ''desc'' then ''DESC'' else ''ASC'')
      in (case pool_query e 0 (Inr (select_tasks L s where' sortBy sortOrder)) of
            Inl msg \<Rightarrow> (s, failure 500 ''Failed to fetch tasks'', [])
          | Inr rows \<Rightarrow> (s, respond 200 (TaskRows rows), [])))"

subsection \<open>\<open>POST /tasks\<close>, behind \<open>authRequired\<close>\<close>

text \<open>The body of \<open>POST /tasks\<close> and \<open>PUT /tasks/:id\<close>.\<close>

record task_body =
  b_title :: "string field"
  b_status :: "string field"
  b_description :: "string field"
  b_priority :: "string field"
  b_due_date :: "string field"
  b_due_time :: "string field"
  b_category :: "string field"
  b_type :: "string field"
  b_project_id :: "int field"
  b_important :: "bool field"
  b_assigned_to :: "string field"

text \<open>
  \<^verbatim>\<open>INSERT INTO tasks (title, status, ..., user_id) VALUES ($1, ..., $12) RETURNING *\<close>:
  the row takes the next value of the sequence, and \<open>created_at\<close> and \<open>updated_at\<close>
  their default \<open>NOW()\<close>.
\<close>

definition insert_task :: "env \<Rightarrow> store \<Rightarrow> task_body \<Rightarrow> nat \<Rightarrow> store \<times> task" where
  "insert_task e s b owner =
     (let row = \<lparr>t_id = Suc (tasks_seq s),
                 title = trim (nullish (b_title b) []),
                 t_status = nullish (b_status b) ''pending'',
                 description = or_null (b_description b),
                 priority = Some (nullish (b_priority b) ''medium''),
                 due_date = or_null (b_due_date b),
                 due_time = or_null (b_due_time b),
                 category = Some (nullish (b_category b) ''own''),
                 t_type = Some (nullish (b_type b) ''work''),
                 project_id = or_null (b_project_id b),
                 important = Some (to_Boolean (b_important b)),
                 assigned_to = or_null (b_assigned_to b),
                 user_id = Some owner,
                 created_at = clock e,
                 updated_at = clock e\<rparr>
      in (s\<lparr>tasks := tasks s @ [row], tasks_seq := Suc (tasks_seq s)\<rparr>, row))"

definition post_tasks :: "env \<Rightarrow> identity \<Rightarrow> task_body \<Rightarrow> store \<Rightarrow> outcome" where
  "post_tasks e user b s =
     (if \<not> truthy (b_title b) \<or> trim (nullish (b_title b) []) = []
      then (s, failure 400 ''Title is required'', [])
      else (case pool_query e 0 (Inr (insert_task e s b (uid user))) of
              Inl msg \<Rightarrow> (s, failure 500 ''Failed to create task'', [])
            | Inr (s', task) \<Rightarrow>
                (s', respond 200 (TaskRow task), [(user_room (uid user), TaskCreated task)])))"

subsection \<open>\<open>PUT /tasks/:id\<close>, behind \<open>authRequired\<close>\<close>

definition nothing_to_update :: "task_body \<Rightarrow> bool" where
  "nothing_to_update b =
     (b_status b = Undefined \<and> b_title b = Undefined \<and> b_description b = Undefined \<and>
      b_priority b = Undefined \<and> b_due_date b = Undefined \<and> b_due_time b = Undefined \<and>
      b_category b = Undefined \<and> b_type b = Undefined \<and> b_project_id b = Undefined \<and>
      b_important b = Undefined \<and> b_assigned_to b = Undefined)"

text \<open>
  The \<open>SET\<close> list the handler builds: a column is assigned when its property is not
  \<open>undefined\<close>, and \<open>updated_at\<close> always. A \<open>null\<close> empties a nullable column.
\<close>

definition assign :: "'a field \<Rightarrow> 'a option \<Rightarrow> 'a option" where
  "assign x old = (case x of Undefined \<Rightarrow> old | Null \<Rightarrow> None | Val v \<Rightarrow> Some v)"

definition set_fields :: "env \<Rightarrow> task_body \<Rightarrow> task \<Rightarrow> task" where
  "set_fields e b t =
     t\<lparr>title := nullish (b_title b) (title t),
       t_status := nullish (b_status b) (t_status t),
       description := assign (b_description b) (description t),
       priority := assign (b_priority b) (priority t),
       due_date := assign (b_due_date b) (due_date t),
       due_time := assign (b_due_time b) (due_time t),
       category := assign (b_category b) (category t),
       t_type := assign (b_type b) (t_type t),
       project_id := assign (b_project_id b) (project_id t),
       important := (if b_important b = Undefined then important t
                     else Some (to_Boolean (b_important b))),
       assigned_to := assign (b_assigned_to b) (assigned_to t),
       updated_at := clock e\<rparr>"

text \<open>
  \<^verbatim>\<open>UPDATE tasks SET ... WHERE id=$n AND user_id=$m RETURNING *\<close>:
  the rows updated are returned. \<open>title\<close> and \<open>status\<close> are \<open>NOT NULL\<close>: assigning
  \<open>null\<close> to one of them in a row raises an error.
\<close>

definition owned :: "nat \<Rightarrow> nat \<Rightarrow> task \<Rightarrow> bool" where
  "owned i owner t = (t_id t = i \<and> user_id t = Some owner)"

definition update_task :: "env \<Rightarrow> store \<Rightarrow> task_body \<Rightarrow> nat \<Rightarrow> nat \<Rightarrow> string + store \<times> task list" where
  "update_task e s b i owner =
     (if (b_title b = Null \<or> b_status b = Null) \<and> (\<exists>t \<in> set (tasks s). owned i owner t)
      then Inl ''null value violates not-null constraint''
      else Inr (s\<lparr>tasks := map (\<lambda>t. if owned i owner t then set_fields e b t else t) (tasks s)\<rparr>,
                map (set_fields e b) (filter (owned i owner) (tasks s))))"

definition put_task :: "env \<Rightarrow> identity \<Rightarrow> nat \<Rightarrow> task_body \<Rightarrow> store \<Rightarrow> outcome" where
  "put_task e user i b s =
     (if nothing_to_update b then (s, failure 400 ''Nothing to update'', [])
      else (case pool_query e 0 (update_task e s b i (uid user)) of
              Inl msg \<Rightarrow> (s, failure 500 ''Failed to update task'', [])
            | Inr (s', []) \<Rightarrow> (s', failure 404 ''Task not found'', [])
            | Inr (s', updated # _) \<Rightarrow>
                (s', respond 200 (TaskRow updated), [(user_room (uid user), TaskUpdated updated)])))"

subsection \<open>\<open>DELETE /tasks/:id\<close>, behind \<open>authRequired\<close>\<close>

text \<open>\<^verbatim>\<open>DELETE FROM tasks WHERE id=$1 AND user_id=$2\<close>, with its \<open>rowCount\<close>.\<close>

definition delete_task_row :: "store \<Rightarrow> nat \<Rightarrow> nat \<Rightarrow> store \<times> nat" where
  "delete_task_row s i owner =
     (s\<lparr>tasks := filter (\<lambda>t. \<not> owned i owner t) (tasks s)\<rparr>,
      length (filter (owned i owner) (tasks s)))"

definition delete_task :: "env \<Rightarrow> identity \<Rightarrow> nat \<Rightarrow> store \<Rightarrow> outcome" where
  "delete_task e user i s =
     (case pool_query e 0 (Inr (delete_task_row s i (uid user))) of
        Inl msg \<Rightarrow> (s, failure 500 ''Failed to delete task'', [])
      | Inr (s', rowCount) \<Rightarrow>
          if rowCount = 0 then (s', failure 404 ''Task not found'', [])
          else (s', respond 200 (Success None), [(user_room (uid user), TaskDeleted i)]))"

subsection \<open>Bulk task actions, behind \<open>authRequired\<close>\<close>

text \<open>
  \<^verbatim>\<open>DELETE FROM tasks WHERE status='done' AND user_id=$1\<close> and
  \<^verbatim>\<open>UPDATE tasks SET status='done', updated_at=NOW() WHERE status<>'done' AND user_id=$1\<close>.
\<close>

definition delete_done :: "store \<Rightarrow> nat \<Rightarrow> store" where
  "delete_done s owner =
     s\<lparr>tasks := filter (\<lambda>t. \<not> (t_status t = ''done'' \<and> user_id t = Some owner)) (tasks s)\<rparr>"

definition mark_done :: "env \<Rightarrow> store \<Rightarrow> nat \<Rightarrow> store" where
  "mark_done e s owner =
     s\<lparr>tasks := map (\<lambda>t. if t_status t \<noteq> ''done'' \<and> user_id t = Some owner
                          then t\<lparr>t_status := ''done'', updated_at := clock e\<rparr> else t) (tasks s)\<rparr>"

definition post_clear_completed :: "env \<Rightarrow> identity \<Rightarrow> store \<Rightarrow> outcome" where
  "post_clear_completed e user s =
     (case pool_query e 0 (Inr (delete_done s (uid user))) of
        Inl msg \<Rightarrow> (s, failure 500 ''Failed to clear completed'', [])
      | Inr s' \<Rightarrow> (s', respond 200 (Success None), []))"

definition post_mark_all_done :: "env \<Rightarrow> identity \<Rightarrow> store \<Rightarrow> outcome" where
  "post_mark_all_done e user s =
     (case pool_query e 0 (Inr (mark_done e s (uid user))) of
        Inl msg \<Rightarrow> (s, failure 500 ''Failed to mark all done'', [])
      | Inr s' \<Rightarrow> (s', respond 200 (Success None), []))"

section \<open>Realtime connections\<close>

text \<open>
  A connected socket: the rooms it has joined and, in order, the events the server has
  sent to it. The sockets of the server are indexed by a connection number. (The room
  Socket.IO opens for each socket under its own random id is left out: no handler
  emits to it.)
\<close>

record socket =
  rooms :: "string set"
  received :: "event list"

type_synonym sockets = "nat \<rightharpoonup> socket"

definition socket_join :: "string \<Rightarrow> socket \<Rightarrow> socket" where
  "socket_join room sk = sk\<lparr>rooms := insert room (rooms sk)\<rparr>"

definition socket_emit :: "event \<Rightarrow> socket \<Rightarrow> socket" where
  "socket_emit ev sk = sk\<lparr>received := received sk @ [ev]\<rparr>"

text \<open>\<open>io.to(room).emit(...)\<close>: every connected socket that is in the room gets the event.\<close>

definition io_to_emit :: "string \<times> event \<Rightarrow> sockets \<Rightarrow> sockets" where
  "io_to_emit re ss =
     (\<lambda>c. case ss c of
             None \<Rightarrow> None
           | Some sk \<Rightarrow> Some (if fst re \<in> rooms sk then socket_emit (snd re) sk else sk))"

text \<open>The handler of \<open>authenticate\<close> on one socket.\<close>

definition on_authenticate :: "libs \<Rightarrow> nat \<Rightarrow> string \<Rightarrow> socket \<Rightarrow> socket" where
  "on_authenticate L t token sk =
     (case jwt_verify L t token of
        Inr p \<Rightarrow> socket_emit Authenticated (socket_join (user_room (userId p)) sk)
      | Inl e \<Rightarrow> socket_emit (AuthError ''Invalid token'') sk)"

section \<open>The server\<close>

text \<open>The routes modelled, each with the parameters and the body its handler reads.\<close>

datatype route =
    PostRegister "string field" "string field"
  | PostLogin "string field" "string field"
  | GetVerify
  | PostChangePassword "string field" "string field"
  | PostResetPassword "string field" "string field"
  | PostCreateDemoUser
  | GetTasks tasks_query
  | PostTasks task_body
  | PutTask nat task_body
  | DeleteTask nat
  | PostClearCompleted
  | PostMarkAllDone

record request =
  authorization :: "string option"
  route :: route

text \<open>The middleware each route is registered with.\<close>

datatype policy = Required | Optional | NoAuth

fun policy_of :: "route \<Rightarrow> policy" where
  "policy_of (PostRegister u p) = NoAuth"
| "policy_of (PostLogin u p) = NoAuth"
| "policy_of GetVerify = Required"
| "policy_of (PostChangePassword c n) = Required"
| "policy_of (PostResetPassword u n) = NoAuth"
| "policy_of PostCreateDemoUser = NoAuth"
| "policy_of (GetTasks q) = Optional"
| "policy_of (PostTasks b) = Required"
| "policy_of (PutTask i b) = Required"
| "policy_of (DeleteTask i) = Required"
| "policy_of PostClearCompleted = Required"
| "policy_of PostMarkAllDone = Required"

text \<open>
  The handlers behind \<open>authRequired\<close>, run with \<open>req.user\<close> set. (The last equation of
  each of the two functions is never reached: \<open>handle\<close> sends a route to the function of
  its middleware.)
\<close>

fun handle_required :: "libs \<Rightarrow> env \<Rightarrow> identity \<Rightarrow> route \<Rightarrow> store \<Rightarrow> outcome" where
  "handle_required L e user GetVerify s = get_verify user s"
| "handle_required L e user (PostChangePassword c n) s = post_change_password L e user c n s"
| "handle_required L e user (PostTasks b) s = post_tasks e user b s"
| "handle_required L e user (PutTask i b) s = put_task e user i b s"
| "handle_required L e user (DeleteTask i) s = delete_task e user i s"
| "handle_required L e user PostClearCompleted s = post_clear_completed e user s"
| "handle_required L e user PostMarkAllDone s = post_mark_all_done e user s"
| "handle_required L e user r s = (s, failure 404 ''API route not found'', [])"

text \<open>The handlers registered without \<open>authRequired\<close>; \<open>user\<close> is what \<open>authOptional\<close> set.\<close>

fun handle_open :: "libs \<Rightarrow> env \<Rightarrow> identity option \<Rightarrow> route \<Rightarrow> store \<Rightarrow> outcome" where
  "handle_open L e user (PostRegister u p) s = post_register L e u p s"
| "handle_open L e user (PostLogin u p) s = post_login L e u p s"
| "handle_open L e user (PostResetPassword u n) s = post_reset_password L e u n s"
| "handle_open L e user PostCreateDemoUser s = post_create_demo_user L e s"
| "handle_open L e user (GetTasks q) s = get_tasks L e user q s"
| "handle_open L e user r s = (s, failure 404 ''API route not found'', [])"

text \<open>A request goes through the middleware of its route, then to its handler.\<close>

definition handle :: "libs \<Rightarrow> env \<Rightarrow> request \<Rightarrow> store \<Rightarrow> outcome" where
  "handle L e req s =
     (case policy_of (route req) of
        Required \<Rightarrow>
          (case authRequired L (clock e) (authorization req) of
             Inl rejected \<Rightarrow> (s, rejected, [])
           | Inr user \<Rightarrow> handle_required L e user (route req) s)
      | Optional \<Rightarrow> handle_open L e (authOptional L (clock e) (authorization req)) (route req) s
      | NoAuth \<Rightarrow> handle_open L e None (route req) s)"

text \<open>
  What happens at the server: a socket connects, disconnects or sends \<open>authenticate\<close>,
  or an HTTP request arrives. The state is the store and the connected sockets.
\<close>

datatype action =
    Connect nat
  | Disconnect nat
  | Authenticate nat string
  | Http request

record server =
  db :: store
  sockets :: sockets

definition initial :: server where
  "initial = \<lparr>db = empty_store, sockets = Map.empty\<rparr>"

definition new_socket :: socket where
  "new_socket = \<lparr>rooms = {}, received = []\<rparr>"

fun step :: "libs \<Rightarrow> env \<times> action \<Rightarrow> server \<Rightarrow> server" where
  "step L (e, Connect c) sv =
     (case sockets sv c of
        None \<Rightarrow> sv\<lparr>sockets := (sockets sv)(c \<mapsto> new_socket)\<rparr>
      | Some sk \<Rightarrow> sv)"
| "step L (e, Disconnect c) sv = sv\<lparr>sockets := (sockets sv)(c := None)\<rparr>"
| "step L (e, Authenticate c token) sv =
     (case sockets sv c of
        None \<Rightarrow> sv
      | Some sk \<Rightarrow> sv\<lparr>sockets := (sockets sv)(c \<mapsto> on_authenticate L (clock e) token sk)\<rparr>)"
| "step L (e, Http req) sv =
     (case handle L e req (db sv) of
        (s', response, emits) \<Rightarrow> sv\<lparr>db := s', sockets := fold io_to_emit emits (sockets sv)\<rparr>)"

definition run :: "libs \<Rightarrow> (env \<times> action) list \<Rightarrow> server \<Rightarrow> server" where
  "run L trace sv = fold (step L) trace sv"

text \<open>
  What the handlers keep true of the table \<open>users\<close>: a username has at least three
  characters (the registration checks it, and the demo user's name is fixed).
\<close>

definition users_ok :: "store \<Rightarrow> bool" where
  "users_ok s = (\<forall>u \<in> set (users s). 3 \<le> length (u_username u))"


text \<open>The rooms of a connection: none when it is not connected.\<close>

definition channels :: "server \<Rightarrow> nat \<Rightarrow> string set" where
  "channels sv c = (case sockets sv c of None \<Rightarrow> {} | Some sk \<Rightarrow> rooms sk)"

definition inbox :: "server \<Rightarrow> nat \<Rightarrow> event list" where
  "inbox sv c = (case sockets sv c of None \<Rightarrow> [] | Some sk \<Rightarrow> received sk)"

text \<open>The response to an HTTP request, and the user it acts for behind its middleware.\<close>

definition response_of :: "libs \<Rightarrow> env \<Rightarrow> request \<Rightarrow> store \<Rightarrow> http_response" where
  "response_of L e req s = fst (snd (handle L e req s))"




section \<open>The token service\<close>

text \<open>
  Modelled from the spec: the token service. \<open>jwt.sign\<close> and \<open>jwt.verify\<close> belong to the
  jsonwebtoken package, which is not among the sources; the server passes
  \<open>{ userId: user.id, username: user.username }\<close>, the secret and \<open>expiresIn: "7d"\<close> to
  the first and the token and the same secret to the second. Following the spec, a
  token is a signed claim set \<open>{user id, username, expiry}\<close>, \<open>issue\<close> embeds the two
  claims and an expiry seven days after issuance, and \<open>verify\<close> validates signature
  and expiry: \<open>Expired\<close> when the signature is valid and the expiry has passed,
  \<open>Malformed\<close> when the signature is invalid or the token is structurally wrong.
  Time is in seconds. The signature is symbolic: the key that signed.
\<close>

record claims =
  c_userId :: nat
  c_username :: string
  c_exp :: nat

datatype token = Signed claims string | Unparsable string

datatype verify_error = Expired | Malformed | Unexpected

definition seven_days :: nat where
  "seven_days = 7 * 24 * 60 * 60"

definition issue :: "string \<Rightarrow> nat \<Rightarrow> nat \<Rightarrow> string \<Rightarrow> token" where
  "issue secret t u n = Signed \<lparr>c_userId = u, c_username = n, c_exp = t + seven_days\<rparr> secret"

definition verify :: "string \<Rightarrow> nat \<Rightarrow> token \<Rightarrow> verify_error + payload" where
  "verify secret t tok =
     (case tok of
        Unparsable text \<Rightarrow> Inl Malformed
      | Signed c key \<Rightarrow>
          if key \<noteq> secret then Inl Malformed
          else if c_exp c \<le> t then Inl Expired
          else Inr \<lparr>userId = c_userId c, p_username = c_username c\<rparr>)"

text \<open>
  The error objects with which the package reports the three kinds: the server tells
  them apart by their \<open>name\<close>.
\<close>

fun thrown_of :: "verify_error \<Rightarrow> thrown" where
  "thrown_of Expired = \<lparr>name = ''TokenExpiredError'', message = ''jwt expired''\<rparr>"
| "thrown_of Malformed = \<lparr>name = ''JsonWebTokenError'', message = ''invalid token''\<rparr>"
| "thrown_of Unexpected = \<lparr>name = ''Error'', message = ''unexpected''\<rparr>"

section \<open>A sample instance of the packages\<close>

text \<open>
  A small instance of the packages, for running the model on concrete requests:
  three tokens are known and valid for a week, one of them of a user id \<open>0\<close>; the
  text match looks for the pattern without its first and last character.
\<close>

definition sample_verify :: "nat \<Rightarrow> string \<Rightarrow> thrown + payload" where
  "sample_verify now token =
     (if token = ''tok-alice'' \<or> token = ''tok-bob'' \<or> token = ''tok-zero'' then
        if 604800 \<le> now then Inl \<lparr>name = ''TokenExpiredError'', message = ''jwt expired''\<rparr>
        else if token = ''tok-alice'' then Inr \<lparr>userId = 1, p_username = ''alice''\<rparr>
        else if token = ''tok-bob'' then Inr \<lparr>userId = 2, p_username = ''bob''\<rparr>
        else Inr \<lparr>userId = 0, p_username = ''zero''\<rparr>
      else if token = ''boom'' then Inl \<lparr>name = ''TypeError'', message = ''unexpected''\<rparr>
      else Inl \<lparr>name = ''JsonWebTokenError'', message = ''jwt malformed''\<rparr>)"

definition sample_libs :: libs where
  "sample_libs =
     \<lparr>jwt_verify = sample_verify,
      jwt_sign = (\<lambda>now p. ''tok-'' @ p_username p),
      bcrypt_hash = (\<lambda>salt pw. salt @ ''$'' @ pw),
      bcrypt_compare = (\<lambda>pw h. drop (length h - Suc (length pw)) h = ''$'' @ pw),
      pg_ilike = (\<lambda>txt pat. str_includes (toLowerCase txt) (toLowerCase (butlast (tl pat))))\<rparr>"

text \<open>
  A sample run: alice and bob register, each opens a socket and authenticates it,
  alice creates a task and bob creates one that is done.
\<close>

definition sample_env :: env where
  "sample_env = \<lparr>clock = 100, salt = ''salt'', query_error = (\<lambda>k. None)\<rparr>"

definition no_filters :: tasks_query where
  "no_filters =
     \<lparr>q_status = None, q_priority = None, q_category = None, q_type = None,
      q_project_id = None, q_important = None, q_q = None, q_sort = None, q_order = None\<rparr>"

definition titled :: "string \<Rightarrow> string field \<Rightarrow> task_body" where
  "titled t st =
     \<lparr>b_title = Val t, b_status = st, b_description = Undefined, b_priority = Undefined,
      b_due_date = Undefined, b_due_time = Undefined, b_category = Undefined,
      b_type = Undefined, b_project_id = Undefined, b_important = Undefined,
      b_assigned_to = Undefined\<rparr>"

definition sample_trace :: "(env \<times> action) list" where
  "sample_trace =
     [(sample_env, Http \<lparr>authorization = None, route = PostRegister (Val ''alice'') (Val ''secret1'')\<rparr>),
      (sample_env, Http \<lparr>authorization = None, route = PostRegister (Val ''bob'') (Val ''secret2'')\<rparr>),
      (sample_env, Connect 0),
      (sample_env, Authenticate 0 ''tok-alice''),
      (sample_env, Connect 1),
      (sample_env, Authenticate 1 ''tok-bob''),
      (sample_env, Http \<lparr>authorization = Some ''Bearer tok-alice'', route = PostTasks (titled ''milk'' Undefined)\<rparr>),
      (sample_env, Http \<lparr>authorization = Some ''Bearer tok-bob'', route = PostTasks (titled ''bread'' (Val ''done''))\<rparr>)]"

definition sample_server :: server where
  "sample_server = run sample_libs sample_trace initial"

definition milk :: task where
  "milk =
     \<lparr>t_id = 1, title = ''milk'', t_status = ''pending'', description = None,
      priority = Some ''medium'', due_date = None, due_time = None, category = Some ''own'',
      t_type = Some ''work'', project_id = None, important = Some False, assigned_to = None,
      user_id = Some 1, created_at = 100, updated_at = 100\<rparr>"

definition bread :: task where
  "bread = milk\<lparr>t_id := 2, title := ''bread'', t_status := ''done'', user_id := Some 2\<rparr>"

section \<open>Room names\<close>

lemma digit_val_digit_char: "d < 10 \<Longrightarrow> digit_val (digit_char d) = d"
proof -
  assume "d < 10"
  then have "d \<in> {0, 1, 2, 3, 4, 5, 6, 7, 8, 9}" by auto
  then show ?thesis by (auto simp: digit_val_def digit_char_def)
qed

lemma parse_number_toString: "parse_nat (number_toString n) = n"
proof (induction n rule: number_toString.induct)
  case (1 n)
  show ?case
  proof (cases "n < 10")
    case True
    then show ?thesis
      by (simp add: number_toString.simps [of n] parse_nat_def digit_val_digit_char)
  next
    case False
    with 1 have "parse_nat (number_toString (n div 10)) = n div 10" by simp
    with False show ?thesis
      by (simp add: number_toString.simps [of n] parse_nat_def digit_val_digit_char)
  qed
qed

lemma number_toString_inj: "number_toString n = number_toString m \<Longrightarrow> n = m"
  by (metis parse_number_toString)

lemma user_room_eq [simp]: "user_room a = user_room b \<longleftrightarrow> a = b"
  by (auto simp: user_room_def dest: number_toString_inj)

section \<open>The sample run\<close>

lemma sample_bearer:
  "bearer (Some (''Bearer '' @ tok)) = Some tok"
  by (simp add: bearer_def slice_def)

lemma sample_verify_at_100:
  "jwt_verify sample_libs 100 ''tok-alice'' = Inr \<lparr>userId = 1, p_username = ''alice''\<rparr>"
  "jwt_verify sample_libs 100 ''tok-bob'' = Inr \<lparr>userId = 2, p_username = ''bob''\<rparr>"
  "jwt_verify sample_libs 100 ''garbage'' = Inl \<lparr>name = ''JsonWebTokenError'', message = ''jwt malformed''\<rparr>"
  by (simp_all add: sample_libs_def sample_verify_def)

lemma sample_rooms:
  "user_room 1 = ''user-1''" "user_room (Suc 0) = ''user-1''" "user_room 2 = ''user-2''"
  by (simp_all add: user_room_def number_toString.simps digit_char_def)

lemmas sample_defs =
  sample_server_def sample_trace_def run_def initial_def empty_store_def handle_def
  post_register_def sample_env_def truthy_def nullish_def pool_query_def insert_user_def
  sample_libs_def sample_verify_def authRequired_def bearer_def slice_def post_tasks_def
  titled_def trim_def is_space_def insert_task_def or_null_def to_Boolean_def respond_def
  milk_def bread_def Let_def channels_def inbox_def new_socket_def on_authenticate_def
  socket_emit_def socket_join_def sample_rooms io_to_emit_def

lemma sample_db:
  "db sample_server =
     \<lparr>users = [\<lparr>u_id = 1, u_username = ''alice'', password_hash = ''salt$secret1'',
                 is_verified = True, phone = None\<rparr>,
               \<lparr>u_id = 2, u_username = ''bob'', password_hash = ''salt$secret2'',
                 is_verified = True, phone = None\<rparr>],
      users_seq = 2, tasks = [milk, bread], tasks_seq = 2\<rparr>"
  by (simp add: sample_defs)

lemma sample_sockets:
  "sockets sample_server 0 = Some \<lparr>rooms = {''user-1''}, received = [Authenticated, TaskCreated milk]\<rparr>"
  "sockets sample_server 1 = Some \<lparr>rooms = {''user-2''}, received = [Authenticated, TaskCreated bread]\<rparr>"
  "sockets sample_server (Suc 0) =
     Some \<lparr>rooms = {''user-2''}, received = [Authenticated, TaskCreated bread]\<rparr>"
  by (simp_all add: sample_defs)

section \<open>Sockets and rooms\<close>

lemma fold_io_to_emit:
  "fold io_to_emit ems ss c =
     map_option (\<lambda>sk. sk\<lparr>received := received sk @ map snd (filter (\<lambda>re. fst re \<in> rooms sk) ems)\<rparr>) (ss c)"
proof (induction ems arbitrary: ss)
  case Nil
  then show ?case by (cases "ss c") simp_all
next
  case (Cons re ems)
  then show ?case
    by (cases "ss c") (simp_all add: io_to_emit_def socket_emit_def)
qed

lemma step_http_sockets:
  "sockets (step L (e, Http req) sv) c =
     map_option (\<lambda>sk. sk\<lparr>received := received sk @
        map snd (filter (\<lambda>re. fst re \<in> rooms sk) (snd (snd (handle L e req (db sv)))))\<rparr>) (sockets sv c)"
  by (simp add: fold_io_to_emit split: prod.splits)

lemma step_http_db: "db (step L (e, Http req) sv) = fst (handle L e req (db sv))"
  by (simp split: prod.splits)

lemma step_socket_db:
  "db (step L (e, Connect c) sv) = db sv" "db (step L (e, Disconnect c) sv) = db sv"
  "db (step L (e, Authenticate c token) sv) = db sv"
  by (simp_all split: option.splits)

lemma channels_step_http: "channels (step L (e, Http req) sv) c = channels sv c"
  by (cases "sockets sv c") (simp_all add: channels_def step_http_sockets del: step.simps)

lemma channels_step_connect: "channels (step L (e, Connect c') sv) c = channels sv c"
  by (simp add: channels_def new_socket_def split: option.splits)

lemma channels_step_disconnect:
  "channels (step L (e, Disconnect c') sv) c = (if c' = c then {} else channels sv c)"
  by (simp add: channels_def)

lemma channels_step_authenticate:
  "channels (step L (e, Authenticate c' token) sv) c =
     (if c' = c \<and> sockets sv c \<noteq> None
      then (case jwt_verify L (clock e) token of
              Inl err \<Rightarrow> channels sv c
            | Inr p \<Rightarrow> insert (user_room (userId p)) (channels sv c))
      else channels sv c)"
  by (auto simp: channels_def on_authenticate_def socket_emit_def socket_join_def
      split: option.splits sum.splits)

section \<open>Where the handlers emit\<close>






section \<open>One action, seen from one socket\<close>












section \<open>The registration handler\<close>

lemma duplicate_username_message:
  "str_includes (unique_violation ''users_username_key'') ''duplicate key''"
  "str_includes (unique_violation ''users_username_key'') ''users_username_key''"
  by (simp_all add: unique_violation_def)

lemma post_register_created:
  assumes "3 \<le> length un" and "6 \<le> length pw" and "\<forall>u \<in> set (users s). u_username u \<noteq> un"
    and "query_error e 0 = None"
  shows "post_register L e (Val un) (Val pw) s =
     (s\<lparr>users := users s @ [\<lparr>u_id = Suc (users_seq s), u_username = un,
                               password_hash = bcrypt_hash L (salt e) pw, is_verified = True,
                               phone = None\<rparr>],
        users_seq := Suc (users_seq s)\<rparr>,
      respond 200 (Registered (jwt_sign L (clock e) \<lparr>userId = Suc (users_seq s), p_username = un\<rparr>)
                              \<lparr>uid = Suc (users_seq s), username = un\<rparr>), [])"
proof -
  from assms(1,2) have "un \<noteq> []" "pw \<noteq> []" by auto
  with assms show ?thesis
    by (simp add: post_register_def truthy_def nullish_def pool_query_def insert_user_def Let_def)
qed

lemma post_register_conflict:
  assumes "3 \<le> length un" and "6 \<le> length pw" and "\<exists>u \<in> set (users s). u_username u = un"
    and "query_error e 0 = None"
  shows "post_register L e (Val un) (Val pw) s = (s, failure 409 ''Username already exists'', [])"
proof -
  from assms(1,2) have "un \<noteq> []" "pw \<noteq> []" by auto
  with assms show ?thesis
    by (simp add: post_register_def truthy_def nullish_def pool_query_def insert_user_def Let_def
        duplicate_username_message)
qed

section \<open>Usernames in the store\<close>

lemma users_ok_open: "users_ok s \<Longrightarrow> users_ok (fst (handle_open L e user r s))"
proof (cases r)
  case (PostRegister u p)
  assume "users_ok s"
  then show ?thesis
    unfolding PostRegister
    by (auto simp: users_ok_def post_register_def insert_user_def pool_query_def Let_def
        truthy_def nullish_def split: sum.splits option.splits field.splits if_splits)
next
  case (PostLogin u p)
  assume "users_ok s"
  then show ?thesis
    unfolding PostLogin
    by (auto simp: post_login_def Let_def split: sum.splits list.splits)
next
  case (PostResetPassword u n)
  assume "users_ok s"
  then show ?thesis
    unfolding PostResetPassword
    by (auto simp: users_ok_def post_reset_password_def set_password_by_username_def pool_query_def
        Let_def split: sum.splits list.splits option.splits)
next
  case PostCreateDemoUser
  assume "users_ok s"
  then show ?thesis
    unfolding PostCreateDemoUser
    by (auto simp: users_ok_def post_create_demo_user_def upsert_user_def pool_query_def
        users_by_username_def Let_def split: sum.splits list.splits option.splits if_splits)
next
  case (GetTasks q)
  assume "users_ok s"
  then show ?thesis
    unfolding GetTasks by (auto simp: get_tasks_def Let_def split: sum.splits)
qed simp_all

lemma users_ok_required: "users_ok s \<Longrightarrow> users_ok (fst (handle_required L e user r s))"
proof (cases r)
  case (PostChangePassword c n)
  assume "users_ok s"
  then show ?thesis
    unfolding PostChangePassword
    by (auto simp: users_ok_def post_change_password_def set_password_by_id_def pool_query_def
        Let_def split: sum.splits list.splits option.splits)
next
  case (PostTasks b)
  assume "users_ok s"
  then show ?thesis
    unfolding PostTasks
    by (auto simp: users_ok_def post_tasks_def insert_task_def pool_query_def Let_def
        split: sum.splits option.splits)
next
  case (PutTask i b)
  assume "users_ok s"
  then show ?thesis
    unfolding PutTask
    by (auto simp: users_ok_def put_task_def update_task_def pool_query_def Let_def
        split: sum.splits option.splits list.splits if_splits)
next
  case (DeleteTask i)
  assume "users_ok s"
  then show ?thesis
    unfolding DeleteTask
    by (auto simp: users_ok_def delete_task_def delete_task_row_def pool_query_def Let_def
        split: sum.splits option.splits if_splits)
next
  case PostClearCompleted
  assume "users_ok s"
  then show ?thesis
    unfolding PostClearCompleted
    by (auto simp: users_ok_def post_clear_completed_def delete_done_def pool_query_def
        split: sum.splits option.splits)
next
  case PostMarkAllDone
  assume "users_ok s"
  then show ?thesis
    unfolding PostMarkAllDone
    by (auto simp: users_ok_def post_mark_all_done_def mark_done_def pool_query_def
        split: sum.splits option.splits)
qed (simp_all add: get_verify_def)

lemma users_ok_handle: "users_ok s \<Longrightarrow> users_ok (fst (handle L e req s))"
  by (auto simp: handle_def users_ok_open users_ok_required split: policy.splits sum.splits)

lemma users_ok_step: "users_ok (db sv) \<Longrightarrow> users_ok (db (step L ea sv))"
proof (cases ea)
  case (Pair e act)
  assume "users_ok (db sv)"
  then show ?thesis
    unfolding Pair
    by (cases act) (simp_all add: step_socket_db step_http_db users_ok_handle del: step.simps)
qed

lemma users_ok_run: "users_ok (db sv) \<Longrightarrow> users_ok (db (run L trace sv))"
  unfolding run_def
  by (induction trace arbitrary: sv) (simp_all add: users_ok_step del: step.simps)

lemma users_ok_reachable: "users_ok (db (run L trace initial))"
  by (rule users_ok_run) (simp add: initial_def empty_store_def users_ok_def)

section \<open>Reading tasks\<close>

lemma set_insert_row: "set (insert_row le x ys) = insert x (set ys)"
  by (induction ys) auto

lemma length_insert_row: "length (insert_row le x ys) = Suc (length ys)"
  by (induction ys) auto

lemma set_order_by: "set (order_by sortBy sortOrder rows) = set rows"
  unfolding order_by_def by (induction rows) (simp_all add: set_insert_row)

lemma length_order_by: "length (order_by sortBy sortOrder rows) = length rows"
  unfolding order_by_def by (induction rows) (simp_all add: length_insert_row)

lemma authOptional_absent:
  assumes "falsy (bearer h) \<or> (\<exists>token err. bearer h = Some token \<and> jwt_verify L t token = Inl err)"
  shows "authOptional L t h = None"
  using assms by (auto simp: authOptional_def falsy_def split: option.splits)

lemma clause_not_user: "c \<in> set (clause x f) \<Longrightarrow> \<exists>v. c = f v"
  by (auto simp: clause_def split: option.splits if_splits)

lemma tasks_where_None_no_user: "c \<in> set (tasks_where None q) \<Longrightarrow> c \<noteq> UserIdEq n"
  by (auto simp: tasks_where_def important_clause_def Let_def dest!: clause_not_user
      split: option.splits if_splits)


section \<open>The rows of other users\<close>

lemma set_fields_user_id [simp]: "user_id (set_fields e b t) = user_id t"
  by (simp add: set_fields_def)










section \<open>The rows in the responses\<close>








section \<open>Isolation of the user channels\<close>




section \<open>Tenant isolation of the handlers\<close>




section \<open>The Required policy\<close>

text \<open>
  C3. A request to a Required endpoint: without a bearer token the response is 401
  \<open>Unauthorized\<close>; with a token whose verification throws, the response is 401, with
  the error \<open>Token expired\<close> when the error is a \<open>TokenExpiredError\<close> and with the error
  \<open>Invalid token\<close> for every other error; the identity \<open>{userId, username}\<close> of the
  payload is attached, and the handler run, only when verification succeeded (and then
  it is, for every payload with a user id other than 0). The
  responses to an expired token, to a malformed one and to any other failure are
  three different responses.
\<close>

theorem authRequired_cases:
  "(falsy (bearer h) \<longrightarrow> authRequired L t h = Inl unauthorized) \<and>
   (\<forall>token e. bearer h = Some token \<and> token \<noteq> [] \<and> jwt_verify L t token = Inl e \<longrightarrow>
      authRequired L t h = Inl (auth_failure e) \<and> status (auth_failure e) = 401 \<and>
      (name e = ''TokenExpiredError'' \<longrightarrow>
         json (auth_failure e) = ErrorBody ''Token expired'' (Some ''Please login again'')) \<and>
      (name e \<noteq> ''TokenExpiredError'' \<longrightarrow>
         (\<exists>m. json (auth_failure e) = ErrorBody ''Invalid token'' m))) \<and>
   (\<forall>u. authRequired L t h = Inr u \<longrightarrow>
      (\<exists>token p. bearer h = Some token \<and> jwt_verify L t token = Inr p \<and>
         u = \<lparr>uid = userId p, username = p_username p\<rparr>)) \<and>
   (\<forall>token p. bearer h = Some token \<and> token \<noteq> [] \<and> jwt_verify L t token = Inr p \<and>
        userId p \<noteq> 0 \<longrightarrow>
      authRequired L t h = Inr \<lparr>uid = userId p, username = p_username p\<rparr>) \<and>
   (\<forall>e1 e2 e3. name e1 = ''TokenExpiredError'' \<and> name e2 = ''JsonWebTokenError'' \<and>
      name e3 \<noteq> ''TokenExpiredError'' \<and> name e3 \<noteq> ''JsonWebTokenError'' \<longrightarrow>
      distinct [auth_failure e1, auth_failure e2, auth_failure e3]) \<and>
   status unauthorized = 401 \<and> json unauthorized = ErrorBody ''Unauthorized'' (Some ''No token provided'')"
proof (intro conjI allI impI)
  assume "falsy (bearer h)"
  then show "authRequired L t h = Inl unauthorized"
    by (auto simp: falsy_def authRequired_def split: option.splits)
next
  fix token e
  assume "bearer h = Some token \<and> token \<noteq> [] \<and> jwt_verify L t token = Inl e"
  then show "authRequired L t h = Inl (auth_failure e)"
    by (simp add: authRequired_def)
next
  fix e :: thrown
  show "status (auth_failure e) = 401"
    by (simp add: auth_failure_def token_expired_def token_malformed_def token_unverified_def
        respond_def)
next
  fix e :: thrown
  assume "name e = ''TokenExpiredError''"
  then show "json (auth_failure e) = ErrorBody ''Token expired'' (Some ''Please login again'')"
    by (simp add: auth_failure_def token_expired_def respond_def)
next
  fix e :: thrown
  assume "name e \<noteq> ''TokenExpiredError''"
  then show "\<exists>m. json (auth_failure e) = ErrorBody ''Invalid token'' m"
    by (simp add: auth_failure_def token_malformed_def token_unverified_def respond_def)
next
  fix u
  assume "authRequired L t h = Inr u"
  then show "\<exists>token p. bearer h = Some token \<and> jwt_verify L t token = Inr p \<and>
      u = \<lparr>uid = userId p, username = p_username p\<rparr>"
    by (auto simp: authRequired_def split: option.splits if_splits sum.splits)
next
  fix token p
  assume "bearer h = Some token \<and> token \<noteq> [] \<and> jwt_verify L t token = Inr p \<and> userId p \<noteq> 0"
  then show "authRequired L t h = Inr \<lparr>uid = userId p, username = p_username p\<rparr>"
    by (simp add: authRequired_def)
next
  fix e1 e2 e3 :: thrown
  assume "name e1 = ''TokenExpiredError'' \<and> name e2 = ''JsonWebTokenError'' \<and>
      name e3 \<noteq> ''TokenExpiredError'' \<and> name e3 \<noteq> ''JsonWebTokenError''"
  then show "distinct [auth_failure e1, auth_failure e2, auth_failure e3]"
    by (simp add: auth_failure_def token_expired_def token_malformed_def token_unverified_def
        respond_def)
qed (simp_all add: unauthorized_def respond_def)

theorem authRequired_cases_witness:
  "authRequired sample_libs 5 None = Inl unauthorized \<and>
   authRequired sample_libs 604800 (Some ''Bearer tok-alice'') = Inl token_expired \<and>
   authRequired sample_libs 5 (Some ''Bearer garbage'') = Inl token_malformed \<and>
   authRequired sample_libs 5 (Some ''Bearer boom'') = Inl token_unverified \<and>
   authRequired sample_libs 5 (Some ''Bearer tok-alice'') = Inr \<lparr>uid = 1, username = ''alice''\<rparr> \<and>
   distinct [token_expired, token_malformed, token_unverified]"
proof -
  let ?expired = "\<lparr>name = ''TokenExpiredError'', message = ''jwt expired''\<rparr>"
  let ?malformed = "\<lparr>name = ''JsonWebTokenError'', message = ''jwt malformed''\<rparr>"
  let ?other = "\<lparr>name = ''TypeError'', message = ''unexpected''\<rparr>"
  let ?alice = "\<lparr>userId = 1, p_username = ''alice''\<rparr>"
  have f: "auth_failure ?expired = token_expired" "auth_failure ?malformed = token_malformed"
    "auth_failure ?other = token_unverified"
    by (simp_all add: auth_failure_def)
  have "falsy (bearer None)"
    by (simp add: falsy_def bearer_def)
  with authRequired_cases [of None sample_libs 5]
  have 1: "authRequired sample_libs 5 None = Inl unauthorized" by blast
  have "bearer (Some ''Bearer tok-alice'') = Some ''tok-alice'' \<and> ''tok-alice'' \<noteq> [] \<and>
      jwt_verify sample_libs 604800 ''tok-alice'' = Inl ?expired"
    using sample_bearer [of "''tok-alice''"] by (simp add: sample_libs_def sample_verify_def)
  with authRequired_cases [of "Some ''Bearer tok-alice''" sample_libs 604800]
  have "authRequired sample_libs 604800 (Some ''Bearer tok-alice'') = Inl (auth_failure ?expired)"
    by blast
  with f have 2: "authRequired sample_libs 604800 (Some ''Bearer tok-alice'') = Inl token_expired"
    by simp
  have "bearer (Some ''Bearer garbage'') = Some ''garbage'' \<and> ''garbage'' \<noteq> [] \<and>
      jwt_verify sample_libs 5 ''garbage'' = Inl ?malformed"
    using sample_bearer [of "''garbage''"] by (simp add: sample_libs_def sample_verify_def)
  with authRequired_cases [of "Some ''Bearer garbage''" sample_libs 5]
  have "authRequired sample_libs 5 (Some ''Bearer garbage'') = Inl (auth_failure ?malformed)"
    by blast
  with f have 3: "authRequired sample_libs 5 (Some ''Bearer garbage'') = Inl token_malformed"
    by simp
  have "bearer (Some ''Bearer boom'') = Some ''boom'' \<and> ''boom'' \<noteq> [] \<and>
      jwt_verify sample_libs 5 ''boom'' = Inl ?other"
    using sample_bearer [of "''boom''"] by (simp add: sample_libs_def sample_verify_def)
  with authRequired_cases [of "Some ''Bearer boom''" sample_libs 5]
  have "authRequired sample_libs 5 (Some ''Bearer boom'') = Inl (auth_failure ?other)"
    by blast
  with f have 4: "authRequired sample_libs 5 (Some ''Bearer boom'') = Inl token_unverified"
    by simp
  have "bearer (Some ''Bearer tok-alice'') = Some ''tok-alice'' \<and> ''tok-alice'' \<noteq> [] \<and>
      jwt_verify sample_libs 5 ''tok-alice'' = Inr ?alice \<and> userId ?alice \<noteq> 0"
    using sample_bearer [of "''tok-alice''"] by (simp add: sample_libs_def sample_verify_def)
  with authRequired_cases [of "Some ''Bearer tok-alice''" sample_libs 5]
  have "authRequired sample_libs 5 (Some ''Bearer tok-alice'') =
      Inr \<lparr>uid = userId ?alice, username = p_username ?alice\<rparr>"
    by blast
  then have 5: "authRequired sample_libs 5 (Some ''Bearer tok-alice'') =
      Inr \<lparr>uid = 1, username = ''alice''\<rparr>"
    by simp
  have "name ?expired = ''TokenExpiredError'' \<and> name ?malformed = ''JsonWebTokenError'' \<and>
      name ?other \<noteq> ''TokenExpiredError'' \<and> name ?other \<noteq> ''JsonWebTokenError''"
    by simp
  with authRequired_cases [of None sample_libs 5]
  have 6: "distinct [auth_failure ?expired, auth_failure ?malformed, auth_failure ?other]"
    by blast
  from 1 2 3 4 5 6 f show ?thesis by simp
qed

section \<open>Token round trip\<close>

text \<open>
  C4. Verifying the token issued for a user id \<open>u\<close> and a username \<open>n\<close> returns exactly
  \<open>{userId: u, username: n}\<close> at any time from the issuance until seven days have
  elapsed, and the error \<open>Expired\<close> from then on. So a request to a Required endpoint
  that carries this token (of a user id other than 0) gets the identity \<open>{u, n}\<close> during
  the seven days and the response \<open>Token expired\<close> afterwards, whenever the package
  verifies the token as the token service does.
\<close>

theorem token_round_trip:
  "(t0 \<le> t \<and> t < t0 + seven_days \<longrightarrow>
      verify secret t (issue secret t0 u n) = Inr \<lparr>userId = u, p_username = n\<rparr>) \<and>
   (t0 + seven_days \<le> t \<longrightarrow> verify secret t (issue secret t0 u n) = Inl Expired) \<and>
   (\<forall>L h token. t0 \<le> t \<and> u \<noteq> 0 \<and> bearer h = Some token \<and> token \<noteq> [] \<and>
        jwt_verify L t token = map_sum thrown_of (\<lambda>p. p) (verify secret t (issue secret t0 u n)) \<longrightarrow>
      authRequired L t h =
        (if t < t0 + seven_days then Inr \<lparr>uid = u, username = n\<rparr> else Inl token_expired))"
  by (simp add: verify_def issue_def authRequired_def auth_failure_def)

theorem token_round_trip_witness:
  "verify ''s3cret'' 604799 (issue ''s3cret'' 0 1 ''alice'') = Inr \<lparr>userId = 1, p_username = ''alice''\<rparr> \<and>
   verify ''s3cret'' 604800 (issue ''s3cret'' 0 1 ''alice'') = Inl Expired \<and>
   authRequired sample_libs 604799 (Some ''Bearer tok-alice'') = Inr \<lparr>uid = 1, username = ''alice''\<rparr> \<and>
   authRequired sample_libs 604800 (Some ''Bearer tok-alice'') = Inl token_expired"
proof -
  note early = token_round_trip [of 0 604799 "''s3cret''" 1 "''alice''"]
  note late = token_round_trip [of 0 604800 "''s3cret''" 1 "''alice''"]
  from early have 1: "verify ''s3cret'' 604799 (issue ''s3cret'' 0 1 ''alice'') =
      Inr \<lparr>userId = 1, p_username = ''alice''\<rparr>"
    by (simp add: seven_days_def)
  from late have 2: "verify ''s3cret'' 604800 (issue ''s3cret'' 0 1 ''alice'') = Inl Expired"
    by (simp add: seven_days_def)
  have b: "bearer (Some ''Bearer tok-alice'') = Some ''tok-alice''"
    using sample_bearer [of "''tok-alice''"] by simp
  have "jwt_verify sample_libs 604799 ''tok-alice'' =
      map_sum thrown_of (\<lambda>p. p) (verify ''s3cret'' 604799 (issue ''s3cret'' 0 1 ''alice''))"
    by (simp add: verify_def issue_def seven_days_def sample_libs_def sample_verify_def)
  with early b have 3: "authRequired sample_libs 604799 (Some ''Bearer tok-alice'') =
      Inr \<lparr>uid = 1, username = ''alice''\<rparr>"
    by (simp add: seven_days_def)
  have "jwt_verify sample_libs 604800 ''tok-alice'' =
      map_sum thrown_of (\<lambda>p. p) (verify ''s3cret'' 604800 (issue ''s3cret'' 0 1 ''alice''))"
    by (simp add: verify_def issue_def seven_days_def sample_libs_def sample_verify_def)
  with late b have 4: "authRequired sample_libs 604800 (Some ''Bearer tok-alice'') = Inl token_expired"
    by (simp add: seven_days_def)
  from 1 2 3 4 show ?thesis by simp
qed

section \<open>Events of the task mutations\<close>

text \<open>
  The handlers of single tasks emit once, to the room of the acting user: a created
  task, an updated task that the user owns, a deleted task that the user owns.
\<close>

lemma single_task_requests_emit_once:
  assumes "authRequired L (clock e) h = Inr user" and "query_error e 0 = None"
  shows "truthy (b_title b) \<and> trim (nullish (b_title b) []) \<noteq> [] \<longrightarrow>
           (\<exists>s' t. handle L e \<lparr>authorization = h, route = PostTasks b\<rparr> s =
              (s', respond 200 (TaskRow t), [(user_room (uid user), TaskCreated t)]))"
    and "\<not> nothing_to_update b \<and> b_title b \<noteq> Null \<and> b_status b \<noteq> Null \<and>
         (\<exists>t \<in> set (tasks s). owned i (uid user) t) \<longrightarrow>
           (\<exists>s' t. handle L e \<lparr>authorization = h, route = PutTask i b\<rparr> s =
              (s', respond 200 (TaskRow t), [(user_room (uid user), TaskUpdated t)]))"
    and "(\<exists>t \<in> set (tasks s). owned i (uid user) t) \<longrightarrow>
           (\<exists>s'. handle L e \<lparr>authorization = h, route = DeleteTask i\<rparr> s =
              (s', respond 200 (Success None), [(user_room (uid user), TaskDeleted i)]))"
proof -
  show "truthy (b_title b) \<and> trim (nullish (b_title b) []) \<noteq> [] \<longrightarrow>
      (\<exists>s' t. handle L e \<lparr>authorization = h, route = PostTasks b\<rparr> s =
         (s', respond 200 (TaskRow t), [(user_room (uid user), TaskCreated t)]))"
    using assms by (simp add: handle_def post_tasks_def pool_query_def insert_task_def Let_def)
next
  show "\<not> nothing_to_update b \<and> b_title b \<noteq> Null \<and> b_status b \<noteq> Null \<and>
      (\<exists>t \<in> set (tasks s). owned i (uid user) t) \<longrightarrow>
        (\<exists>s' t. handle L e \<lparr>authorization = h, route = PutTask i b\<rparr> s =
           (s', respond 200 (TaskRow t), [(user_room (uid user), TaskUpdated t)]))"
  proof
    assume a: "\<not> nothing_to_update b \<and> b_title b \<noteq> Null \<and> b_status b \<noteq> Null \<and>
      (\<exists>t \<in> set (tasks s). owned i (uid user) t)"
    then obtain x xs where "filter (owned i (uid user)) (tasks s) = x # xs"
      by (cases "filter (owned i (uid user)) (tasks s)") (auto simp: filter_empty_conv)
    with a assms show "\<exists>s' t. handle L e \<lparr>authorization = h, route = PutTask i b\<rparr> s =
        (s', respond 200 (TaskRow t), [(user_room (uid user), TaskUpdated t)])"
      by (simp add: handle_def put_task_def pool_query_def update_task_def)
  qed
next
  show "(\<exists>t \<in> set (tasks s). owned i (uid user) t) \<longrightarrow>
      (\<exists>s'. handle L e \<lparr>authorization = h, route = DeleteTask i\<rparr> s =
         (s', respond 200 (Success None), [(user_room (uid user), TaskDeleted i)]))"
    using assms
    by (auto simp: handle_def delete_task_def pool_query_def delete_task_row_def filter_empty_conv)
qed

text \<open>
  C5. The claim asks for one event for every mutation of a task that succeeds at the
  storage layer. The two bulk actions emit none. Bob, whose socket is in his room, clears
  his completed tasks: his task \<open>bread\<close> is deleted, the response is a success, and no
  socket receives anything.
\<close>

theorem bulk_clear_emits_nothing:
  "step sample_libs (sample_env, Http \<lparr>authorization = Some ''Bearer tok-bob'', route = PostClearCompleted\<rparr>)
      sample_server = sample_server\<lparr>db := (db sample_server)\<lparr>tasks := [milk]\<rparr>\<rparr> \<and>
   response_of sample_libs sample_env \<lparr>authorization = Some ''Bearer tok-bob'', route = PostClearCompleted\<rparr>
      (db sample_server) = respond 200 (Success None) \<and>
   tasks (db sample_server) = [milk, bread] \<and>
   channels sample_server 1 = {user_room 2} \<and>
   inbox (step sample_libs (sample_env, Http \<lparr>authorization = Some ''Bearer tok-bob'', route = PostClearCompleted\<rparr>)
      sample_server) 1 = inbox sample_server 1"
proof -
  have h: "handle sample_libs sample_env \<lparr>authorization = Some ''Bearer tok-bob'', route = PostClearCompleted\<rparr>
      (db sample_server) = ((db sample_server)\<lparr>tasks := [milk]\<rparr>, respond 200 (Success None), [])"
    by (simp add: sample_db handle_def authRequired_def bearer_def slice_def sample_env_def
        sample_verify_at_100 post_clear_completed_def delete_done_def pool_query_def milk_def bread_def)
  then show ?thesis
    by (simp add: response_of_def sample_db channels_def inbox_def sample_sockets sample_rooms)
qed

section \<open>Registering once\<close>

text \<open>
  C6. A registration with a username of at least 3 characters that no user has and a
  password of at least 6 characters succeeds: the response carries the token signed for
  the new user and the user created. From then on a registration with the same username,
  whatever its (valid) password, is answered 409 \<open>Username already exists\<close> and leaves
  the store as it is. (The storage layer is assumed to execute the statement.)
\<close>

theorem register_once:
  assumes "3 \<le> length un" and "6 \<le> length pw" and "\<forall>u \<in> set (users s). u_username u \<noteq> un"
    and "query_error e 0 = None"
  shows "\<exists>s' token user.
           handle L e \<lparr>authorization = h, route = PostRegister (Val un) (Val pw)\<rparr> s =
             (s', respond 200 (Registered token user), []) \<and>
           username user = un \<and>
           token = jwt_sign L (clock e) \<lparr>userId = uid user, p_username = un\<rparr> \<and>
           (\<exists>row \<in> set (users s'). u_username row = un \<and> u_id row = uid user \<and>
              password_hash row = bcrypt_hash L (salt e) pw) \<and>
           (\<forall>e' h' pw'. 6 \<le> length pw' \<and> query_error e' 0 = None \<longrightarrow>
              handle L e' \<lparr>authorization = h', route = PostRegister (Val un) (Val pw')\<rparr> s' =
                (s', failure 409 ''Username already exists'', []))"
proof -
  let ?row = "\<lparr>u_id = Suc (users_seq s), u_username = un,
      password_hash = bcrypt_hash L (salt e) pw, is_verified = True, phone = None\<rparr>"
  let ?s' = "s\<lparr>users := users s @ [?row], users_seq := Suc (users_seq s)\<rparr>"
  let ?user = "\<lparr>uid = Suc (users_seq s), username = un\<rparr>"
  let ?token = "jwt_sign L (clock e) \<lparr>userId = Suc (users_seq s), p_username = un\<rparr>"
  have 1: "handle L e \<lparr>authorization = h, route = PostRegister (Val un) (Val pw)\<rparr> s =
      (?s', respond 200 (Registered ?token ?user), [])"
    using post_register_created [OF assms] by (simp add: handle_def)
  have ex: "\<exists>u \<in> set (users ?s'). u_username u = un" by simp
  have 2: "\<forall>e' h' pw'. 6 \<le> length pw' \<and> query_error e' 0 = None \<longrightarrow>
      handle L e' \<lparr>authorization = h', route = PostRegister (Val un) (Val pw')\<rparr> ?s' =
        (?s', failure 409 ''Username already exists'', [])"
    using post_register_conflict [OF assms(1) _ ex] by (simp add: handle_def)
  have 3: "\<exists>row \<in> set (users ?s'). u_username row = un \<and> u_id row = uid ?user \<and>
      password_hash row = bcrypt_hash L (salt e) pw"
    by simp
  from 1 2 3 show ?thesis
    by (intro exI [of _ ?s'] exI [of _ ?token] exI [of _ ?user]) simp
qed


theorem register_once_witness:
  "handle sample_libs sample_env
      \<lparr>authorization = None, route = PostRegister (Val ''carol'') (Val ''secret3'')\<rparr> (db sample_server) =
     ((db sample_server)\<lparr>users := users (db sample_server) @
         [\<lparr>u_id = 3, u_username = ''carol'', password_hash = ''salt$secret3'', is_verified = True,
           phone = None\<rparr>], users_seq := 3\<rparr>,
      respond 200 (Registered ''tok-carol'' \<lparr>uid = 3, username = ''carol''\<rparr>), []) \<and>
   handle sample_libs sample_env
      \<lparr>authorization = None, route = PostRegister (Val ''carol'') (Val ''another'')\<rparr>
      ((db sample_server)\<lparr>users := users (db sample_server) @
         [\<lparr>u_id = 3, u_username = ''carol'', password_hash = ''salt$secret3'', is_verified = True,
           phone = None\<rparr>], users_seq := 3\<rparr>) =
     ((db sample_server)\<lparr>users := users (db sample_server) @
         [\<lparr>u_id = 3, u_username = ''carol'', password_hash = ''salt$secret3'', is_verified = True,
           phone = None\<rparr>], users_seq := 3\<rparr>,
      failure 409 ''Username already exists'', [])"
proof -
  let ?s3 = "(db sample_server)\<lparr>users := users (db sample_server) @
         [\<lparr>u_id = 3, u_username = ''carol'', password_hash = ''salt$secret3'', is_verified = True,
           phone = None\<rparr>], users_seq := 3\<rparr>"
  have first: "handle sample_libs sample_env
      \<lparr>authorization = None, route = PostRegister (Val ''carol'') (Val ''secret3'')\<rparr> (db sample_server) =
     (?s3, respond 200 (Registered ''tok-carol'' \<lparr>uid = 3, username = ''carol''\<rparr>), [])"
    by (simp add: sample_db handle_def post_register_def truthy_def nullish_def pool_query_def
        insert_user_def Let_def sample_env_def sample_libs_def)
  have "(3::nat) \<le> length ''carol''" "(6::nat) \<le> length ''secret3''"
    "\<forall>u \<in> set (users (db sample_server)). u_username u \<noteq> ''carol''"
    "query_error sample_env 0 = None"
    by (simp_all add: sample_db sample_env_def)
  from register_once [OF this, of sample_libs None] first
  have "\<forall>e' h' pw'. 6 \<le> length pw' \<and> query_error e' 0 = None \<longrightarrow>
      handle sample_libs e' \<lparr>authorization = h', route = PostRegister (Val ''carol'') (Val pw')\<rparr> ?s3 =
        (?s3, failure 409 ''Username already exists'', [])"
    by auto
  then have "handle sample_libs sample_env
      \<lparr>authorization = None, route = PostRegister (Val ''carol'') (Val ''another'')\<rparr> ?s3 =
        (?s3, failure 409 ''Username already exists'', [])"
    by (simp add: sample_env_def)
  with first show ?thesis by simp
qed

section \<open>One channel per connection\<close>

text \<open>
  C7, as stated, fails: a connection that sends \<open>authenticate\<close> with alice's token and
  then with bob's is in both rooms, \<open>user-1\<close> and \<open>user-2\<close>.
\<close>

theorem two_channels_counterexample:
  "channels (run sample_libs [(sample_env, Connect 0), (sample_env, Authenticate 0 ''tok-alice''),
      (sample_env, Authenticate 0 ''tok-bob'')] initial) 0 = {user_room 1, user_room 2} \<and>
   user_room 1 \<noteq> user_room 2"
  by (simp add: run_def initial_def channels_def new_socket_def on_authenticate_def
      sample_env_def sample_verify_at_100 socket_emit_def socket_join_def insert_commute)

text \<open>
  C7, amended. A connection is in at most one user room at any time, for every sequence
  of actions in which the tokens it authenticates with successfully all carry the same
  user id: it is in no room but that user's.
\<close>

theorem one_channel_per_user:
  assumes "channels sv c \<subseteq> {user_room a}"
    and "\<forall>(e, act) \<in> set trace. \<forall>token p.
           act = Authenticate c token \<and> jwt_verify L (clock e) token = Inr p \<longrightarrow> userId p = a"
  shows "channels (run L trace sv) c \<subseteq> {user_room a} \<and> card (channels (run L trace sv) c) \<le> 1"
proof -
  have "channels (fold (step L) trace sv) c \<subseteq> {user_room a}"
    using assms
  proof (induction trace arbitrary: sv)
    case Nil
    then show ?case by simp
  next
    case (Cons ea trace)
    obtain e act where ea: "ea = (e, act)" by (cases ea)
    have "channels (step L (e, act) sv) c \<subseteq> {user_room a}"
    proof (cases act)
      case (Connect c')
      with Cons.prems(1) show ?thesis by (simp only: channels_step_connect)
    next
      case (Disconnect c')
      with Cons.prems(1) show ?thesis by (simp only: channels_step_disconnect split: if_splits) simp
    next
      case (Authenticate c' token)
      have "\<And>p. c' = c \<Longrightarrow> jwt_verify L (clock e) token = Inr p \<Longrightarrow> userId p = a"
        using Cons.prems(2) ea Authenticate by auto
      with Cons.prems(1) show ?thesis
        unfolding Authenticate
        by (auto simp add: channels_step_authenticate simp del: step.simps split: sum.splits)
    next
      case (Http req)
      with Cons.prems(1) show ?thesis by (simp only: channels_step_http)
    qed
    moreover from Cons.prems(2) have "\<forall>(e, act) \<in> set trace. \<forall>token p.
           act = Authenticate c token \<and> jwt_verify L (clock e) token = Inr p \<longrightarrow> userId p = a"
      by simp
    ultimately show ?case
      using Cons.IH [of "step L (e, act) sv"] ea by simp
  qed
  then have sub: "channels (run L trace sv) c \<subseteq> {user_room a}"
    by (simp add: run_def)
  then have "card (channels (run L trace sv) c) \<le> card {user_room a}"
    by (intro card_mono) simp_all
  with sub show ?thesis by simp
qed

theorem one_channel_per_user_witness:
  "channels (run sample_libs [(sample_env, Authenticate 0 ''tok-alice''),
      (sample_env, Authenticate 0 ''garbage''), (sample_env, Authenticate 1 ''tok-bob'')]
      sample_server) 0 \<subseteq> {user_room 1}"
proof -
  have "channels sample_server 0 \<subseteq> {user_room 1}"
    by (simp add: channels_def sample_sockets sample_rooms)
  moreover have "\<forall>(e, act) \<in> set [(sample_env, Authenticate 0 ''tok-alice''),
      (sample_env, Authenticate 0 ''garbage''), (sample_env, Authenticate 1 ''tok-bob'')].
      \<forall>token p. act = Authenticate 0 token \<and> jwt_verify sample_libs (clock e) token = Inr p
        \<longrightarrow> userId p = 1"
    by (auto simp: sample_env_def sample_verify_at_100)
  ultimately show ?thesis
    using one_channel_per_user [of sample_server 0 1 _ sample_libs] by blast
qed

section \<open>A rejected \<open>authenticate\<close>\<close>

text \<open>
  C8. When a connection sends \<open>authenticate\<close> with a token whose verification fails,
  the server sends \<open>auth_error\<close> to that connection and changes nothing else: the other
  sockets and the store are as before, the connection is still open and is in the rooms
  it was in. It may send \<open>authenticate\<close> again: with a token that verifies it joins the
  room of the token's user and is acknowledged.
\<close>

theorem rejected_authenticate:
  assumes "sockets sv c = Some sk" and "jwt_verify L (clock e) token = Inl err"
  shows "step L (e, Authenticate c token) sv =
           sv\<lparr>sockets := (sockets sv)(c \<mapsto> sk\<lparr>received := received sk @ [AuthError ''Invalid token'']\<rparr>)\<rparr> \<and>
         channels (step L (e, Authenticate c token) sv) c = channels sv c \<and>
         (\<forall>e' token' p. jwt_verify L (clock e') token' = Inr p \<longrightarrow>
            sockets (step L (e', Authenticate c token') (step L (e, Authenticate c token) sv)) c =
              Some \<lparr>rooms = insert (user_room (userId p)) (rooms sk),
                    received = received sk @ [AuthError ''Invalid token'', Authenticated]\<rparr>)"
  using assms
  by (simp add: on_authenticate_def socket_emit_def socket_join_def channels_def)

theorem rejected_authenticate_witness:
  "step sample_libs (sample_env, Authenticate 0 ''garbage'') sample_server =
     sample_server\<lparr>sockets := (sockets sample_server)(0 \<mapsto>
        \<lparr>rooms = {''user-1''}, received = [Authenticated, TaskCreated milk, AuthError ''Invalid token'']\<rparr>)\<rparr> \<and>
   sockets (step sample_libs (sample_env, Authenticate 0 ''tok-bob'')
      (step sample_libs (sample_env, Authenticate 0 ''garbage'') sample_server)) 0 =
     Some \<lparr>rooms = {''user-2'', ''user-1''},
           received = [Authenticated, TaskCreated milk, AuthError ''Invalid token'', Authenticated]\<rparr>"
proof -
  have "jwt_verify sample_libs (clock sample_env) ''garbage'' =
      Inl \<lparr>name = ''JsonWebTokenError'', message = ''jwt malformed''\<rparr>"
    and "jwt_verify sample_libs (clock sample_env) ''tok-bob'' = Inr \<lparr>userId = 2, p_username = ''bob''\<rparr>"
    by (simp_all add: sample_env_def sample_verify_at_100)
  note v = this
  note r = rejected_authenticate [OF sample_sockets(1) v(1)]
  from r have "step sample_libs (sample_env, Authenticate 0 ''garbage'') sample_server =
     sample_server\<lparr>sockets := (sockets sample_server)(0 \<mapsto>
        \<lparr>rooms = {''user-1''}, received = [Authenticated, TaskCreated milk, AuthError ''Invalid token'']\<rparr>)\<rparr>"
    by (simp del: step.simps)
  moreover from r [THEN conjunct2, THEN conjunct2, rule_format, OF v(2)]
  have "sockets (step sample_libs (sample_env, Authenticate 0 ''tok-bob'')
      (step sample_libs (sample_env, Authenticate 0 ''garbage'') sample_server)) 0 =
     Some \<lparr>rooms = {''user-2'', ''user-1''},
           received = [Authenticated, TaskCreated milk, AuthError ''Invalid token'', Authenticated]\<rparr>"
    by (simp del: step.simps add: sample_rooms)
  ultimately show ?thesis by (simp del: step.simps)
qed

section \<open>Password reset\<close>

text \<open>
  C9. For every user in a store the handlers have kept, a \<open>POST /auth/reset-password\<close>
  request with that user's username and a new password of at least 6 characters is
  answered with success and replaces the password hash of that user's row by the hash
  of the new password, whatever the \<open>Authorization\<close> header is (also when there is
  none): the route has no middleware and the handler reads neither a token nor the
  current password. (The storage layer is assumed to execute the two statements.)
\<close>

theorem reset_password_without_credentials:
  assumes "users_ok s" and "u \<in> set (users s)" and "6 \<le> length pw"
    and "query_error e 0 = None" and "query_error e 1 = None"
  shows "handle L e \<lparr>authorization = h, route = PostResetPassword (Val (u_username u)) (Val pw)\<rparr> s =
           (set_password_by_username s (bcrypt_hash L (salt e) pw) (u_username u),
            respond 200 (Success (Some ''Password updated successfully'')), []) \<and>
         u\<lparr>password_hash := bcrypt_hash L (salt e) pw\<rparr> \<in>
           set (users (set_password_by_username s (bcrypt_hash L (salt e) pw) (u_username u))) \<and>
         (\<forall>row \<in> set (users (set_password_by_username s (bcrypt_hash L (salt e) pw) (u_username u))).
            u_username row = u_username u \<longrightarrow> password_hash row = bcrypt_hash L (salt e) pw)"
proof -
  from assms(1,2) have "3 \<le> length (u_username u)" by (simp add: users_ok_def)
  then have n: "u_username u \<noteq> []" by auto
  from assms(3) have p: "pw \<noteq> []" by auto
  from assms(2) obtain row rows where "users_by_username s (u_username u) = row # rows"
    by (cases "users_by_username s (u_username u)") (auto simp: users_by_username_def filter_empty_conv)
  with n p assms(3,4,5)
  have "post_reset_password L e (Val (u_username u)) (Val pw) s =
      (set_password_by_username s (bcrypt_hash L (salt e) pw) (u_username u),
       respond 200 (Success (Some ''Password updated successfully'')), [])"
    by (simp add: post_reset_password_def truthy_def nullish_def pool_query_def Let_def)
  moreover from assms(2) have "u\<lparr>password_hash := bcrypt_hash L (salt e) pw\<rparr> \<in>
      set (users (set_password_by_username s (bcrypt_hash L (salt e) pw) (u_username u)))"
    by (force simp: set_password_by_username_def)
  moreover have "\<forall>row \<in> set (users (set_password_by_username s (bcrypt_hash L (salt e) pw) (u_username u))).
      u_username row = u_username u \<longrightarrow> password_hash row = bcrypt_hash L (salt e) pw"
    by (auto simp: set_password_by_username_def)
  ultimately show ?thesis by (simp add: handle_def)
qed


theorem reset_password_without_credentials_witness:
  "handle sample_libs sample_env
      \<lparr>authorization = None, route = PostResetPassword (Val ''bob'') (Val ''hacked1'')\<rparr> (db sample_server) =
     ((db sample_server)\<lparr>users :=
         [\<lparr>u_id = 1, u_username = ''alice'', password_hash = ''salt$secret1'', is_verified = True,
           phone = None\<rparr>,
          \<lparr>u_id = 2, u_username = ''bob'', password_hash = ''salt$hacked1'', is_verified = True,
           phone = None\<rparr>]\<rparr>,
      respond 200 (Success (Some ''Password updated successfully'')), [])"
proof -
  let ?bob = "\<lparr>u_id = 2, u_username = ''bob'', password_hash = ''salt$secret2'', is_verified = True,
      phone = None\<rparr>"
  have "users_ok (db sample_server)"
    unfolding sample_server_def by (rule users_ok_reachable)
  moreover have "?bob \<in> set (users (db sample_server))" "(6::nat) \<le> length ''hacked1''"
    "query_error sample_env 0 = None" "query_error sample_env 1 = None"
    by (simp_all add: sample_db sample_env_def)
  ultimately have "handle sample_libs sample_env
      \<lparr>authorization = None, route = PostResetPassword (Val (u_username ?bob)) (Val ''hacked1'')\<rparr>
      (db sample_server) =
     (set_password_by_username (db sample_server) (bcrypt_hash sample_libs (salt sample_env) ''hacked1'')
        (u_username ?bob),
      respond 200 (Success (Some ''Password updated successfully'')), [])"
    using reset_password_without_credentials [of "db sample_server" ?bob "''hacked1''" sample_env
        sample_libs None]
    by blast
  then show ?thesis
    by (simp add: set_password_by_username_def sample_db sample_libs_def sample_env_def)
qed

section \<open>\<open>GET /tasks\<close> without an identity\<close>

text \<open>
  C10. A \<open>GET /tasks\<close> request that carries no bearer token, or a token whose
  verification fails, is answered 200, and its query has no condition on \<open>user_id\<close>: the
  rows of the response are the tasks of the store that match the filters of the request,
  each once, whoever owns them. (The storage layer is assumed to execute the query.)
\<close>

theorem get_tasks_without_identity:
  assumes "falsy (bearer h) \<or>
      (\<exists>token err. bearer h = Some token \<and> jwt_verify L (clock e) token = Inl err)"
    and "query_error e 0 = None"
  shows "\<exists>rows. handle L e \<lparr>authorization = h, route = GetTasks q\<rparr> s =
             (s, respond 200 (TaskRows rows), []) \<and>
           set rows = {t \<in> set (tasks s). \<forall>c \<in> set (tasks_where None q). holds L c t} \<and>
           length rows = length (filter (\<lambda>t. \<forall>c \<in> set (tasks_where None q). holds L c t) (tasks s)) \<and>
           (\<forall>c \<in> set (tasks_where None q). \<forall>n. c \<noteq> UserIdEq n)"
proof -
  from assms(1) have none: "authOptional L (clock e) h = None" by (rule authOptional_absent)
  let ?sort = "case q_sort q of None \<Rightarrow> ''id'' | Some v \<Rightarrow> v"
  let ?order = "case q_order q of None \<Rightarrow> ''asc'' | Some v \<Rightarrow> v"
  obtain sortBy sortOrder where "sortBy = (if ?sort \<in> set allowedSort then ?sort else ''id'')"
    and "sortOrder = (if toLowerCase ?order = ''desc'' then ''DESC'' else ''ASC'')"
    by blast
  with none assms(2) have "handle L e \<lparr>authorization = h, route = GetTasks q\<rparr> s =
      (s, respond 200 (TaskRows (select_tasks L s (tasks_where None q) sortBy sortOrder)), [])"
    by (simp add: handle_def get_tasks_def pool_query_def Let_def)
  moreover have "set (select_tasks L s (tasks_where None q) sortBy sortOrder) =
      {t \<in> set (tasks s). \<forall>c \<in> set (tasks_where None q). holds L c t}"
    by (simp add: select_tasks_def set_order_by)
  moreover have "length (select_tasks L s (tasks_where None q) sortBy sortOrder) =
      length (filter (\<lambda>t. \<forall>c \<in> set (tasks_where None q). holds L c t) (tasks s))"
    by (simp add: select_tasks_def length_order_by)
  moreover have "\<forall>c \<in> set (tasks_where None q). \<forall>n. c \<noteq> UserIdEq n"
    using tasks_where_None_no_user by blast
  ultimately show ?thesis by blast
qed


theorem get_tasks_without_identity_witness:
  "handle sample_libs sample_env
      \<lparr>authorization = Some ''Bearer garbage'', route = GetTasks no_filters\<rparr> (db sample_server) =
     (db sample_server, respond 200 (TaskRows [milk, bread]), []) \<and>
   map user_id [milk, bread] = [Some 1, Some 2]"
proof -
  have "falsy (bearer (Some ''Bearer garbage'')) \<or>
      (\<exists>token err. bearer (Some ''Bearer garbage'') = Some token \<and>
         jwt_verify sample_libs (clock sample_env) token = Inl err)"
    using sample_bearer [of "''garbage''"] by (simp add: sample_env_def sample_verify_at_100)
  moreover have "query_error sample_env 0 = None"
    by (simp add: sample_env_def)
  ultimately obtain rows where rows: "handle sample_libs sample_env
      \<lparr>authorization = Some ''Bearer garbage'', route = GetTasks no_filters\<rparr> (db sample_server) =
     (db sample_server, respond 200 (TaskRows rows), [])"
    and "set rows = {t \<in> set (tasks (db sample_server)).
           \<forall>c \<in> set (tasks_where None no_filters). holds sample_libs c t}"
    and "length rows = length (filter (\<lambda>t. \<forall>c \<in> set (tasks_where None no_filters).
           holds sample_libs c t) (tasks (db sample_server)))"
    using get_tasks_without_identity [of "Some ''Bearer garbage''" sample_libs sample_env
        no_filters "db sample_server"]
    by blast
  have "authOptional sample_libs (clock sample_env) (Some ''Bearer garbage'') = None"
    using sample_bearer [of "''garbage''"]
    by (simp add: authOptional_def sample_env_def sample_verify_at_100)
  then have "handle sample_libs sample_env
      \<lparr>authorization = Some ''Bearer garbage'', route = GetTasks no_filters\<rparr> (db sample_server) =
     (db sample_server, respond 200 (TaskRows [milk, bread]), [])"
    by (simp add: sample_db handle_def get_tasks_def tasks_where_def
        clause_def important_clause_def no_filters_def allowedSort_def toLowerCase_def lower_char_def
        pool_query_def sample_env_def select_tasks_def order_by_def column_def milk_def bread_def
        Let_def)
  with rows show ?thesis
    by (simp add: milk_def bread_def)
qed


end
